theory Spec2Isabelle
  imports Complex_Main "HOL-Library.Extended_Nat" "HOL-Library.Char_ord" "HOL-Library.List_Lexorder"
begin

section \<open>WebSlider to PDF: a model of make-pdf.js\<close>

text \<open>
  The program is one script, \<^verbatim>\<open>make-pdf.js\<close>: it unpacks a tar archive, reads an
  optional manifest, lists the slide folders, serves the unpacked tree over HTTP, drives a
  browser over the slides and writes one PDF page per screenshot.  Its pure parts
  (manifest handling, folder enumeration, unit conversion, the HTTP handler's decision,
  the candidate URL list) are functions below.  Its effects are modelled by a record
  \<open>world\<close> that says what every call into the platform answers, and by the list of
  events the script produces, in order, together with the exit code of the process.
\<close>

subsection \<open>JavaScript values of a parsed manifest\<close>

text \<open>
  The result of \<^verbatim>\<open>JSON.parse\<close>.  A number is a finite double; it is kept as the
  rational it denotes.  \<open>undefined\<close> is \<open>None\<close> of \<open>jsval option\<close>.
\<close>

datatype jsval =
    JNull
  | JBool bool
  | JNum rat
  | JStr string
  | JArr "jsval list"
  | JObj "(string \<times> jsval) list"

text \<open>
  \<^verbatim>\<open>v?.k\<close>: \<open>undefined\<close> on \<open>null\<close> and \<open>undefined\<close>; a property read on a
  primitive or an array finds none of the keys used here; on an object the last of
  duplicate keys wins, as \<^verbatim>\<open>JSON.parse\<close> builds it.
\<close>

fun getProp :: "jsval option \<Rightarrow> string \<Rightarrow> jsval option" where
  "getProp (Some (JObj kvs)) k = map_of (rev kvs) k"
| "getProp _ k = None"

text \<open>ToBoolean, as \<^verbatim>\<open>&&\<close> and \<^verbatim>\<open>if\<close> apply it.\<close>

fun truthy :: "jsval option \<Rightarrow> bool" where
  "truthy None = False"
| "truthy (Some JNull) = False"
| "truthy (Some (JBool b)) = b"
| "truthy (Some (JNum r)) = (r \<noteq> 0)"
| "truthy (Some (JStr s)) = (s \<noteq> [])"
| "truthy (Some (JArr xs)) = True"
| "truthy (Some (JObj kvs)) = True"

text \<open>
  Lines 326-336 of \<^verbatim>\<open>main\<close>: the slide size is 1280 by 720 unless
  \<^verbatim>\<open>manifest?.slideSize?.width && manifest?.slideSize?.height\<close> is truthy, and then
  both fields are taken as they are.
\<close>

definition slideSize :: "jsval option \<Rightarrow> jsval option \<times> jsval option" where
  "slideSize manifest =
     (let width = getProp (getProp manifest ''slideSize'') ''width'';
          height = getProp (getProp manifest ''slideSize'') ''height''
      in if truthy width \<and> truthy height then (width, height)
         else (Some (JNum 1280), Some (JNum 720)))"

text \<open>
  The specification's wording, kept apart from the code: a manifest is honoured when it
  carries a numeric \<open>width\<close> and a numeric \<open>height\<close> under \<open>slideSize\<close>.
\<close>

fun isNumber :: "jsval option \<Rightarrow> bool" where
  "isNumber (Some (JNum r)) = True"
| "isNumber _ = False"

definition spec_carriesNumericSize :: "jsval option \<Rightarrow> bool" where
  "spec_carriesNumericSize manifest =
     (isNumber (getProp (getProp manifest ''slideSize'') ''width'') \<and>
      isNumber (getProp (getProp manifest ''slideSize'') ''height''))"

subsection \<open>Pixels to PDF points\<close>

text \<open>
  \<^verbatim>\<open>pxToPdfPoints(px, dpi = 96)\<close> is \<^verbatim>\<open>(px * 72) / dpi\<close>.  For an integer
  \<open>px\<close> below \<open>2^46\<close> the double product and quotient are exact, so the rational
  value is the value the script computes.
\<close>

definition pxToPdfPoints :: "rat \<Rightarrow> rat \<Rightarrow> rat" where
  "pxToPdfPoints px dpi = (px * 72) / dpi"

text \<open>
  The operand is a \<open>jsval\<close>, since the size may come from the manifest untyped.  On a
  number the conversion is the one above; on anything else JavaScript first coerces the
  operand to a number, which is not modelled: the result is \<open>None\<close>.
\<close>

fun pointsOf :: "jsval option \<Rightarrow> rat option" where
  "pointsOf (Some (JNum px)) = Some (pxToPdfPoints px 96)"
| "pointsOf _ = None"

subsection \<open>Folder names and their order\<close>

text \<open>
  A \<open>char\<close> stands for one UTF-16 code unit below 256, and the order of \<open>string\<close> is
  the order of code unit sequences, which is the order of the default
  \<^verbatim>\<open>Array.prototype.sort\<close>.  \<^verbatim>\<open>/^\d+$/\<close> accepts the non-empty strings of
  ASCII digits.
\<close>

definition isDigit :: "char \<Rightarrow> bool" where
  "isDigit c = (CHR ''0'' \<le> c \<and> c \<le> CHR ''9'')"

definition allDigits :: "string \<Rightarrow> bool" where
  "allDigits n = (n \<noteq> [] \<and> list_all isDigit n)"

definition digitVal :: "char \<Rightarrow> nat" where
  "digitVal c = of_char c - 48"

definition decimalValue :: "string \<Rightarrow> nat" where
  "decimalValue s = foldl (\<lambda>n c. 10 * n + digitVal c) 0 s"

text \<open>
  \<^verbatim>\<open>Number(a)\<close> on a string of digits is the double nearest to its decimal value,
  ties to the even significand, and \<open>Infinity\<close> from \<open>2^1024 - 2^970\<close> on.  A finite
  double of that kind is a natural number; \<open>Infinity\<close> is \<open>\<infinity>\<close> of \<open>enat\<close>.
\<close>

fun bitlen :: "nat \<Rightarrow> nat" where
  "bitlen n = (if n = 0 then 0 else Suc (bitlen (n div 2)))"

definition toDouble :: "nat \<Rightarrow> enat" where
  "toDouble n =
     (let e = bitlen n - 53;
          q = n div 2 ^ e;
          r = n mod 2 ^ e;
          m = (if 2 ^ e < 2 * r \<or> (2 * r = 2 ^ e \<and> odd q) then q + 1 else q)
      in if 2 ^ 1024 \<le> m * 2 ^ e then \<infinity> else enat (m * 2 ^ e))"

definition jsNumber :: "string \<Rightarrow> enat" where
  "jsNumber a = toDouble (decimalValue a)"

subsection \<open>The platform\<close>

text \<open>
  \<^verbatim>\<open>path.join\<close> joins with a separator and then normalises.  The model joins; the
  predicates of the world are asked with the joined string and stand for the file system
  read after normalisation.
\<close>

definition path_join :: "string \<Rightarrow> string \<Rightarrow> string" where
  "path_join a b = a @ ''/'' @ b"

record dirent =
  d_name :: string
  d_isDirectory :: bool

text \<open>
  What each call into the platform answers during one run.  A call that can throw has a
  field saying whether it returns (\<open>_ok\<close>), or an \<open>option\<close> result.  The browser's
  and the server's shutdown may be called twice, so their answer depends on the number of
  earlier calls.  \<open>goto_ok\<close> and \<open>screenshot_ok\<close> are asked with the index of the
  slide in the slide list.  \<open>requestPathname p\<close> is
  \<^verbatim>\<open>decodeURIComponent(new URL(req.url).pathname)\<close> of the request that
  \<^verbatim>\<open>fetch\<close> sends for the URL path \<open>p\<close>, and \<open>None\<close> when no request with a
  decodable path reaches the handler.  URLs are written by their path: the origin
  \<^verbatim>\<open>http://127.0.0.1:<port>\<close> is the same in all of them.
  \<open>platformCandidates\<close> is the table of browser paths of the current platform
  (lines 57-124).
\<close>

record world =
  argv :: "string list"
  path_resolve :: "string \<Rightarrow> string"
  path_dirname :: "string \<Rightarrow> string"
  stat_ok :: "string \<Rightarrow> bool"
  mkdtemp :: "string option"
  mkdirp_ok :: "string \<Rightarrow> bool"
  extract_ok :: "string \<Rightarrow> string \<Rightarrow> bool"
  readJson :: "string \<Rightarrow> jsval option"
  readdir :: "string \<Rightarrow> dirent list option"
  existsSync :: "string \<Rightarrow> bool"
  isDirectory :: "string \<Rightarrow> bool"
  requestPathname :: "string \<Rightarrow> string option"
  serve_ok :: bool
  env_CHROME_PATH :: "string option"
  platformCandidates :: "string list"
  launch_ok :: bool
  newPage_ok :: bool
  setViewport_ok :: bool
  goto_ok :: "nat \<Rightarrow> bool"
  screenshot_ok :: "nat \<Rightarrow> bool"
  pdfCreate_ok :: bool
  readFile_ok :: "string \<Rightarrow> bool"
  embedJpg_ok :: "string \<Rightarrow> bool"
  save_ok :: bool
  writeFile_ok :: "string \<Rightarrow> bool"
  browserClose_ok :: "nat \<Rightarrow> bool"
  srvStop_ok :: "nat \<Rightarrow> bool"
  rm_ok :: "string \<Rightarrow> bool"

subsection \<open>Pure parts over the platform\<close>

text \<open>\<^verbatim>\<open>findSystemChrome\<close>: \<^verbatim>\<open>CHROME_PATH\<close> first when it is set and not empty,
  then the platform's table; the first candidate that exists.\<close>

definition findSystemChrome :: "world \<Rightarrow> string option" where
  "findSystemChrome w =
     (let candidates =
        (case env_CHROME_PATH w of
           None \<Rightarrow> []
         | Some p \<Rightarrow> if p \<noteq> [] then [p] else []) @ platformCandidates w
      in List.find (existsSync w) candidates)"

text \<open>\<^verbatim>\<open>readManifestIfExists\<close>: the parsed manifest, \<open>None\<close> for the script's
  \<^verbatim>\<open>null\<close> when reading or parsing throws.\<close>

definition readManifestIfExists :: "world \<Rightarrow> string \<Rightarrow> jsval option" where
  "readManifestIfExists w dir = readJson w (path_join dir ''manifest.json'')"

text \<open>\<^verbatim>\<open>listNumericSlideFolders\<close>: the directories with an all-digits name, in a
  stable sort by \<^verbatim>\<open>Number(a) - Number(b)\<close>; the empty list when the listing
  throws.\<close>

definition listNumericSlideFolders :: "world \<Rightarrow> string \<Rightarrow> string list" where
  "listNumericSlideFolders w slidesDir =
     (case readdir w slidesDir of
        None \<Rightarrow> []
      | Some entries \<Rightarrow>
          sort_key jsNumber (filter allDigits (map d_name (filter d_isDirectory entries))))"

text \<open>The fallback of lines 344-353: the directories that hold an \<^verbatim>\<open>index.html\<close>,
  in the default sort; \<open>None\<close> when the listing throws.\<close>

definition listIndexSlideFolders :: "world \<Rightarrow> string \<Rightarrow> string list option" where
  "listIndexSlideFolders w slidesRoot =
     (case readdir w slidesRoot of
        None \<Rightarrow> None
      | Some entries \<Rightarrow>
          Some (sort (filter (\<lambda>n. existsSync w (path_join (path_join slidesRoot n) ''index.html''))
                  (map d_name (filter d_isDirectory entries)))))"

text \<open>The handler of \<^verbatim>\<open>createServer\<close>, as the status of its response: 404 when
  the path, after the step to the \<^verbatim>\<open>index.html\<close> of a directory, does not exist, and
  otherwise the status of a response built without one, 200, also for a directory that
  holds no \<^verbatim>\<open>index.html\<close>.\<close>

definition serverFetch :: "world \<Rightarrow> string \<Rightarrow> string \<Rightarrow> nat" where
  "serverFetch w extracted pathname =
     (let fsPath = path_join extracted pathname;
          fsPath' =
            (if existsSync w fsPath \<and> isDirectory w fsPath
             then (let indexPath = path_join fsPath ''index.html''
                   in if existsSync w indexPath then indexPath else fsPath)
             else fsPath)
      in if \<not> existsSync w fsPath' then 404 else 200)"

text \<open>\<^verbatim>\<open>fetch\<close> of a URL path, as the script's loop sees it: the status, or
  \<open>None\<close> when the call throws or the handler does.\<close>

definition fetchStatus :: "world \<Rightarrow> string \<Rightarrow> string \<Rightarrow> nat option" where
  "fetchStatus w extracted p = map_option (serverFetch w extracted) (requestPathname w p)"

definition tryPaths :: "string \<Rightarrow> string list" where
  "tryPaths s =
     [''/slides/'' @ s @ ''/index.html'',
      ''/slides/'' @ s,
      ''/'' @ s @ ''/index.html'',
      ''/'' @ s,
      ''/slides/'' @ s @ ''.html'']"

subsection \<open>Events and computations\<close>

text \<open>
  An event is a line on the console or a call that acts on the world outside the
  script.  Reads (listing a directory, reading a file) leave no event.
\<close>

datatype errmsg =
    ArchiveNotFound
  | ExtractionFailed
  | NoSlidesFound
  | BrowserNotFound
  | NoRenderableSlides
  | RenderingError
  | FatalError

record image =
  img_path :: string
  img_width :: "jsval option"
  img_height :: "jsval option"

text \<open>A page of the document: \<^verbatim>\<open>addPage([widthPts, heightPts])\<close> and the
  \<^verbatim>\<open>drawImage\<close> of the file embedded on it.\<close>

record pdf_page =
  page_width :: "rat option"
  page_height :: "rat option"
  page_image :: string
  draw_x :: rat
  draw_y :: rat
  draw_width :: "rat option"
  draw_height :: "rat option"

datatype event =
    Usage
  | Error errmsg
  | WarnNoNumeric
  | WarnSkip string
  | WarnCleanup
  | LogPlatform
  | LogExtracting string
  | LogSlideSize bool "jsval option" "jsval option"
  | LogFound nat
  | LogServing
  | LogBrowser string
  | LogRendering nat nat string
  | LogComposing
  | LogWritten string nat
  | LogDone
  | Stat string
  | Mkdtemp
  | Mkdirp string
  | Extract string string
  | Serve
  | Launch string
  | NewPage
  | SetViewport "jsval option" "jsval option"
  | Fetch string
  | Goto string
  | Sleep
  | Screenshot string
  | WriteFile string "pdf_page list"
  | CloseBrowser
  | StopServer
  | RemoveTmp string

text \<open>
  A computation gives the events it produced and how it ended: with a value, with an
  exception on its way up, or with \<^verbatim>\<open>process.exit(n)\<close>, which ends the process
  where it stands.
\<close>

datatype 'a res = Ok 'a | Thrown | Exited nat

type_synonym 'a comp = "event list \<times> 'a res"

definition bind :: "'a comp \<Rightarrow> ('a \<Rightarrow> 'b comp) \<Rightarrow> 'b comp" where
  "bind m f =
     (case m of
        (es, Ok a) \<Rightarrow> (case f a of (es', r) \<Rightarrow> (es @ es', r))
      | (es, Thrown) \<Rightarrow> (es, Thrown)
      | (es, Exited n) \<Rightarrow> (es, Exited n))"

definition thenDo :: "unit comp \<Rightarrow> 'a comp \<Rightarrow> 'a comp" where
  "thenDo m k = bind m (\<lambda>_. k)"

definition skip :: "unit comp" where
  "skip = ([], Ok ())"

definition emit :: "event \<Rightarrow> unit comp" where
  "emit e = ([e], Ok ())"

text \<open>A call that leaves an event and may throw; a read that may throw.\<close>

definition call :: "event \<Rightarrow> bool \<Rightarrow> unit comp" where
  "call e ok = ([e], if ok then Ok () else Thrown)"

definition guard :: "bool \<Rightarrow> unit comp" where
  "guard ok = ([], if ok then Ok () else Thrown)"

definition exitWith :: "nat \<Rightarrow> 'a comp" where
  "exitWith n = ([], Exited n)"

text \<open>\<^verbatim>\<open>try { m } catch { h }\<close>; the handler is given the events of the block.\<close>

definition tryCatch :: "'a comp \<Rightarrow> (event list \<Rightarrow> 'a comp) \<Rightarrow> 'a comp" where
  "tryCatch m h =
     (case m of
        (es, Thrown) \<Rightarrow> (case h es of (es', r) \<Rightarrow> (es @ es', r))
      | (es, r) \<Rightarrow> (es, r))"

subsection \<open>The rendering loop\<close>

text \<open>The inner loop of lines 425-435: the candidates are fetched in order until one
  answers 200; a fetch that throws is passed over.\<close>

fun probe :: "world \<Rightarrow> string \<Rightarrow> string list \<Rightarrow> event list \<times> string option" where
  "probe w extracted [] = ([], None)"
| "probe w extracted (p # ps) =
     (if fetchStatus w extracted p = Some 200 then ([Fetch p], Some p)
      else (case probe w extracted ps of (es, r) \<Rightarrow> (Fetch p # es, r)))"

text \<open>\<^verbatim>\<open>String(i).padStart(4, "0")\<close> and the path of the screenshot of slide \<open>i\<close>.\<close>

function decString :: "nat \<Rightarrow> string" where
  "decString n =
     (if n < 10 then [char_of (48 + n)]
      else decString (n div 10) @ [char_of (48 + n mod 10)])"
  by pat_completeness auto
termination
  by (relation "measure id") auto

definition padStart4 :: "string \<Rightarrow> string" where
  "padStart4 s = replicate (4 - length s) CHR ''0'' @ s"

definition imgPath :: "string \<Rightarrow> nat \<Rightarrow> string" where
  "imgPath tmp i = path_join tmp (''slide-'' @ padStart4 (decString i) @ ''.jpg'')"

text \<open>
  The loop of lines 414-457 from slide \<open>i\<close> on: \<open>n\<close> is the number of slides,
  \<open>images\<close> what was captured so far.  A slide none of whose candidates answers is
  passed over with a warning; \<^verbatim>\<open>page.goto\<close> and \<^verbatim>\<open>page.screenshot\<close> throw into
  the enclosing \<^verbatim>\<open>try\<close>.
\<close>

fun renderSlides ::
  "world \<Rightarrow> string \<Rightarrow> jsval option \<times> jsval option \<Rightarrow> nat \<Rightarrow> nat \<Rightarrow> string list \<Rightarrow> image list
     \<Rightarrow> image list comp" where
  "renderSlides w tmp sz n i [] images = ([], Ok images)"
| "renderSlides w tmp sz n i (s # rest) images =
     (case probe w (path_join tmp ''project'') (tryPaths s) of
        (fs, None) \<Rightarrow>
          thenDo (fs, Ok ())
         (thenDo (emit (WarnSkip s))
         (renderSlides w tmp sz n (Suc i) rest images))
      | (fs, Some urlPath) \<Rightarrow>
          thenDo (fs, Ok ())
         (thenDo (emit (LogRendering (i + 1) n s))
         (thenDo (call (Goto urlPath) (goto_ok w i))
         (thenDo (emit Sleep)
         (thenDo (call (Screenshot (imgPath tmp i)) (screenshot_ok w i))
         (renderSlides w tmp sz n (Suc i) rest
            (images @ [\<lparr>img_path = imgPath tmp i, img_width = fst sz, img_height = snd sz\<rparr>])))))))"

subsection \<open>The document\<close>

definition pageOf :: "image \<Rightarrow> pdf_page" where
  "pageOf img =
     (let widthPts = pointsOf (img_width img);
          heightPts = pointsOf (img_height img)
      in \<lparr>page_width = widthPts, page_height = heightPts, page_image = img_path img,
          draw_x = 0, draw_y = 0, draw_width = widthPts, draw_height = heightPts\<rparr>)"

text \<open>The loop of lines 470-482 over the images left, \<open>doc\<close> being the pages added so
  far; reading or embedding an image may throw.\<close>

fun composePages :: "world \<Rightarrow> image list \<Rightarrow> pdf_page list \<Rightarrow> pdf_page list comp" where
  "composePages w [] doc = ([], Ok doc)"
| "composePages w (img # imgs) doc =
     thenDo (guard (readFile_ok w (img_path img)))
    (thenDo (guard (embedJpg_ok w (img_path img)))
    (composePages w imgs (doc @ [pageOf img])))"

subsection \<open>The script\<close>

definition archivePath :: "world \<Rightarrow> string" where
  "archivePath w = path_resolve w (argv w ! 2)"

definition outPdfPath :: "world \<Rightarrow> string" where
  "outPdfPath w = path_resolve w (argv w ! 3)"

text \<open>Step 4 of \<^verbatim>\<open>main\<close> (lines 339-363): the slide list, or the exit with code 1
  when there is none.\<close>

definition findSlides :: "world \<Rightarrow> string \<Rightarrow> string list comp" where
  "findSlides w extracted =
     (let slidesRoot = path_join extracted ''slides'';
          slideDirs = listNumericSlideFolders w slidesRoot
      in bind
           (if length slideDirs = 0
            then thenDo (emit WarnNoNumeric)
                   (case listIndexSlideFolders w slidesRoot of
                      None \<Rightarrow> thenDo (emit (Error NoSlidesFound)) (exitWith 1)
                    | Some candidates \<Rightarrow> ([], Ok candidates))
            else ([], Ok slideDirs))
           (\<lambda>slideDirs.
              if length slideDirs = 0
              then thenDo (emit (Error NoSlidesFound)) (exitWith 1)
              else ([], Ok slideDirs)))"

text \<open>Lines 496-507: the end of the \<^verbatim>\<open>try\<close> block after the file is written.\<close>

definition finish :: "world \<Rightarrow> string \<Rightarrow> unit comp" where
  "finish w tmp =
     thenDo (call CloseBrowser (browserClose_ok w 0))
    (thenDo (call StopServer (srvStop_ok w 0))
    (thenDo (tryCatch (call (RemoveTmp tmp) (rm_ok w tmp)) (\<lambda>_. emit WarnCleanup))
    (emit LogDone)))"

text \<open>Lines 466-494: the document is composed, saved and written.\<close>

definition writePdf :: "world \<Rightarrow> image list \<Rightarrow> unit comp" where
  "writePdf w images =
     thenDo (emit LogComposing)
    (thenDo (guard (pdfCreate_ok w))
    (bind (composePages w images [])
       (\<lambda>pages.
          let outDir = path_dirname w (outPdfPath w)
          in thenDo (if outDir \<noteq> [] \<and> outDir \<noteq> ''.''
                     then call (Mkdirp outDir) (mkdirp_ok w outDir) else skip)
            (thenDo (guard (save_ok w))
            (thenDo (call (WriteFile (outPdfPath w) pages) (writeFile_ok w (outPdfPath w)))
            (emit (LogWritten (outPdfPath w) (length images))))))))"

text \<open>The \<^verbatim>\<open>try\<close> block of lines 408-507.\<close>

definition tryBody ::
  "world \<Rightarrow> string \<Rightarrow> jsval option \<times> jsval option \<Rightarrow> string list \<Rightarrow> unit comp" where
  "tryBody w tmp sz slideDirs =
     thenDo (call NewPage (newPage_ok w))
    (thenDo (call (SetViewport (fst sz) (snd sz)) (setViewport_ok w))
    (bind (renderSlides w tmp sz (length slideDirs) 0 slideDirs [])
       (\<lambda>images.
          if length images = 0
          then thenDo (emit (Error NoRenderableSlides))
              (thenDo (call CloseBrowser (browserClose_ok w 0))
              (thenDo (call StopServer (srvStop_ok w 0))
              (exitWith 1)))
          else thenDo (writePdf w images) (finish w tmp))))"

text \<open>The \<^verbatim>\<open>catch\<close> block of lines 508-517; \<open>pre\<close> are the events of the
  \<^verbatim>\<open>try\<close> block, which say how often the browser and the server were already asked
  to stop.\<close>

definition catchBlock :: "world \<Rightarrow> event list \<Rightarrow> unit comp" where
  "catchBlock w pre =
     thenDo (emit (Error RenderingError))
    (thenDo (tryCatch
               (thenDo (call CloseBrowser (browserClose_ok w (count_list pre CloseBrowser)))
                       (call StopServer (srvStop_ok w (count_list pre StopServer))))
               (\<lambda>_. skip))
    (exitWith 1))"

text \<open>Steps 5 and 6 (lines 367-406) and the rendering.\<close>

definition serveAndRender ::
  "world \<Rightarrow> string \<Rightarrow> jsval option \<times> jsval option \<Rightarrow> string list \<Rightarrow> unit comp" where
  "serveAndRender w tmp sz slideDirs =
     thenDo (call Serve (serve_ok w))
    (thenDo (emit LogServing)
       (case findSystemChrome w of
          None \<Rightarrow>
            thenDo (emit (Error BrowserNotFound))
           (thenDo (call StopServer (srvStop_ok w 0))
           (exitWith 1))
        | Some chromePath \<Rightarrow>
            thenDo (emit (LogBrowser chromePath))
           (thenDo (call (Launch chromePath) (launch_ok w))
           (tryCatch (tryBody w tmp sz slideDirs) (catchBlock w)))))"

text \<open>Steps 2 to 4 (lines 312-365), once the temporary directory is made.\<close>

definition stageAndRender :: "world \<Rightarrow> string \<Rightarrow> unit comp" where
  "stageAndRender w tmp =
     (let extracted = path_join tmp ''project''
      in thenDo (call (Mkdirp extracted) (mkdirp_ok w extracted))
        (thenDo (emit (LogExtracting extracted))
        (thenDo (tryCatch (call (Extract (archivePath w) extracted)
                             (extract_ok w (archivePath w) extracted))
                   (\<lambda>_. thenDo (emit (Error ExtractionFailed)) (exitWith 1)))
        (let manifest = readManifestIfExists w extracted;
             sz = slideSize manifest
         in thenDo (emit (LogSlideSize
                            (truthy (getProp (getProp manifest ''slideSize'') ''width'') \<and>
                             truthy (getProp (getProp manifest ''slideSize'') ''height''))
                            (fst sz) (snd sz)))
           (bind (findSlides w extracted)
              (\<lambda>slideDirs.
                 thenDo (emit (LogFound (length slideDirs)))
                        (serveAndRender w tmp sz slideDirs)))))))"

text \<open>\<^verbatim>\<open>main\<close>.\<close>

definition main :: "world \<Rightarrow> unit comp" where
  "main w =
     thenDo (emit LogPlatform)
    (thenDo (tryCatch (call (Stat (archivePath w)) (stat_ok w (archivePath w)))
               (\<lambda>_. thenDo (emit (Error ArchiveNotFound)) (exitWith 1)))
    (thenDo (emit Mkdtemp)
       (case mkdtemp w of
          None \<Rightarrow> ([], Thrown)
        | Some tmp \<Rightarrow> stageAndRender w tmp)))"

text \<open>
  The whole script: the argument check of line 37, then \<^verbatim>\<open>main().catch(...)\<close>.  A
  \<^verbatim>\<open>main\<close> that returns lets the process end with code 0.
\<close>

record result =
  trace :: "event list"
  exit_code :: nat

definition run :: "world \<Rightarrow> result" where
  "run w =
     (if length (argv w) < 4 then \<lparr>trace = [Usage], exit_code = 2\<rparr>
      else (case main w of
              (es, Ok _) \<Rightarrow> \<lparr>trace = es, exit_code = 0\<rparr>
            | (es, Exited n) \<Rightarrow> \<lparr>trace = es, exit_code = n\<rparr>
            | (es, Thrown) \<Rightarrow> \<lparr>trace = es @ [Error FatalError], exit_code = 1\<rparr>))"

subsection \<open>Notions used in the statements\<close>

text \<open>The \<^verbatim>\<open>urlPath\<close> the inner loop leaves for a slide: the first candidate that
  answered 200, if any.\<close>

definition resolveUrl :: "world \<Rightarrow> string \<Rightarrow> string \<Rightarrow> string option" where
  "resolveUrl w extracted s = snd (probe w extracted (tryPaths s))"

text \<open>The image the loop records for slide \<open>i\<close>, the images it records from slide
  \<open>i\<close> on when nothing throws, and whether nothing throws.\<close>

definition imageOf :: "string \<Rightarrow> jsval option \<times> jsval option \<Rightarrow> nat \<Rightarrow> image" where
  "imageOf tmp sz i = \<lparr>img_path = imgPath tmp i, img_width = fst sz, img_height = snd sz\<rparr>"

fun captured ::
  "world \<Rightarrow> string \<Rightarrow> jsval option \<times> jsval option \<Rightarrow> nat \<Rightarrow> string list \<Rightarrow> image list" where
  "captured w tmp sz i [] = []"
| "captured w tmp sz i (s # rest) =
     (if resolveUrl w (path_join tmp ''project'') s = None then captured w tmp sz (Suc i) rest
      else imageOf tmp sz i # captured w tmp sz (Suc i) rest)"

fun renderOk :: "world \<Rightarrow> string \<Rightarrow> nat \<Rightarrow> string list \<Rightarrow> bool" where
  "renderOk w tmp i [] = True"
| "renderOk w tmp i (s # rest) =
     (if resolveUrl w (path_join tmp ''project'') s = None then renderOk w tmp (Suc i) rest
      else goto_ok w i \<and> screenshot_ok w i \<and> renderOk w tmp (Suc i) rest)"

text \<open>The events of the loop, and a computation after some events.\<close>

definition renderTrace ::
  "world \<Rightarrow> string \<Rightarrow> jsval option \<times> jsval option \<Rightarrow> nat \<Rightarrow> nat \<Rightarrow> string list \<Rightarrow> image list
     \<Rightarrow> event list" where
  "renderTrace w tmp sz n i sl images = fst (renderSlides w tmp sz n i sl images)"

definition prepend :: "event list \<Rightarrow> 'a comp \<Rightarrow> 'a comp" where
  "prepend es m = (es @ fst m, snd m)"

text \<open>The slide list of step 4, empty when the script exits there.\<close>

definition slideDirsOf :: "world \<Rightarrow> string \<Rightarrow> string list" where
  "slideDirsOf w extracted =
     (case snd (findSlides w extracted) of Ok slideDirs \<Rightarrow> slideDirs | _ \<Rightarrow> [])"

text \<open>The events of the rendering loop, and the three cleanup calls.\<close>

fun isRenderEvent :: "event \<Rightarrow> bool" where
  "isRenderEvent (Fetch p) = True"
| "isRenderEvent (WarnSkip s) = True"
| "isRenderEvent (LogRendering i n s) = True"
| "isRenderEvent (Goto p) = True"
| "isRenderEvent Sleep = True"
| "isRenderEvent (Screenshot p) = True"
| "isRenderEvent _ = False"

text \<open>The navigations and screenshots of a trace, and the ones the loop makes from slide
  \<open>i\<close> on when nothing throws: each resolved slide is visited and then captured into
  the file of its index.\<close>

fun isVisit :: "event \<Rightarrow> bool" where
  "isVisit (Goto p) = True"
| "isVisit (Screenshot p) = True"
| "isVisit _ = False"

fun visits :: "world \<Rightarrow> string \<Rightarrow> nat \<Rightarrow> string list \<Rightarrow> event list" where
  "visits w tmp i [] = []"
| "visits w tmp i (s # rest) =
     (case resolveUrl w (path_join tmp ''project'') s of
        None \<Rightarrow> visits w tmp (Suc i) rest
      | Some urlPath \<Rightarrow> Goto urlPath # Screenshot (imgPath tmp i) # visits w tmp (Suc i) rest)"

fun isCleanup :: "event \<Rightarrow> bool" where
  "isCleanup CloseBrowser = True"
| "isCleanup StopServer = True"
| "isCleanup (RemoveTmp d) = True"
| "isCleanup _ = False"

fun isWriteFile :: "event \<Rightarrow> bool" where
  "isWriteFile (WriteFile p pages) = True"
| "isWriteFile _ = False"

text \<open>
  Pieces of the trace: what the \<^verbatim>\<open>catch\<close> block prints and calls when the browser
  was already asked \<open>k\<close> times to close; the \<^verbatim>\<open>mkdirp\<close> of the output directory;
  the events up to the extraction and the slide size; the events up to the launch of the
  browser \<open>c\<close>.
\<close>

definition catchTrace :: "world \<Rightarrow> nat \<Rightarrow> event list" where
  "catchTrace w k =
     [Error RenderingError, CloseBrowser] @ (if browserClose_ok w k then [StopServer] else [])"

definition mkdirpTrace :: "world \<Rightarrow> event list" where
  "mkdirpTrace w =
     (if path_dirname w (outPdfPath w) \<noteq> [] \<and> path_dirname w (outPdfPath w) \<noteq> ''.''
      then [Mkdirp (path_dirname w (outPdfPath w))] else [])"

definition mkdirpOk :: "world \<Rightarrow> bool" where
  "mkdirpOk w =
     (if path_dirname w (outPdfPath w) \<noteq> [] \<and> path_dirname w (outPdfPath w) \<noteq> ''.''
      then mkdirp_ok w (path_dirname w (outPdfPath w)) else True)"

definition imagesOk :: "world \<Rightarrow> image list \<Rightarrow> bool" where
  "imagesOk w imgs =
     list_all (\<lambda>img. readFile_ok w (img_path img) \<and> embedJpg_ok w (img_path img)) imgs"

definition canvasOf :: "world \<Rightarrow> string \<Rightarrow> jsval option \<times> jsval option" where
  "canvasOf w tmp = slideSize (readManifestIfExists w (path_join tmp ''project''))"

definition stagingTrace :: "world \<Rightarrow> string \<Rightarrow> event list" where
  "stagingTrace w tmp =
     [LogPlatform, Stat (archivePath w), Mkdtemp, Mkdirp (path_join tmp ''project''),
      LogExtracting (path_join tmp ''project''),
      Extract (archivePath w) (path_join tmp ''project''),
      LogSlideSize
        (truthy (getProp (getProp (readManifestIfExists w (path_join tmp ''project''))
                   ''slideSize'') ''width'') \<and>
         truthy (getProp (getProp (readManifestIfExists w (path_join tmp ''project''))
                   ''slideSize'') ''height''))
        (fst (canvasOf w tmp)) (snd (canvasOf w tmp))]"

definition foundTrace :: "world \<Rightarrow> string \<Rightarrow> event list" where
  "foundTrace w tmp =
     stagingTrace w tmp @
     (if listNumericSlideFolders w (path_join (path_join tmp ''project'') ''slides'') = []
      then [WarnNoNumeric] else []) @
     [LogFound (length (slideDirsOf w (path_join tmp ''project''))), Serve]"

definition setupTrace :: "world \<Rightarrow> string \<Rightarrow> string \<Rightarrow> event list" where
  "setupTrace w tmp c = foundTrace w tmp @ [LogServing, LogBrowser c, Launch c]"

subsection \<open>Example worlds\<close>

text \<open>
  A file system given by the lists of its directories and files, read after collapsing
  repeated separators as the normalisation of \<^verbatim>\<open>path.join\<close> does; a Linux machine
  with Chromium installed; a URL path reaches the handler as it is written up to the
  first \<^verbatim>\<open>#\<close>, where the fragment starts; every other call succeeds.  The staged tree
  is \<^verbatim>\<open>/tmp/webslider-a/project\<close>, and \<open>entries\<close> is the listing of its
  \<^verbatim>\<open>slides\<close> directory.
\<close>

fun squeeze :: "string \<Rightarrow> string" where
  "squeeze (a # b # cs) =
     (if a = CHR ''/'' \<and> b = CHR ''/'' then squeeze (b # cs) else a # squeeze (b # cs))"
| "squeeze cs = cs"

definition linuxCandidates :: "string list" where
  "linuxCandidates =
     [''/usr/bin/google-chrome'', ''/usr/bin/google-chrome-stable'', ''/usr/bin/chromium'',
      ''/usr/bin/chromium-browser'', ''/opt/google/chrome/chrome'',
      ''/opt/google/chrome/google-chrome'', ''/snap/bin/chromium'', ''/snap/bin/google-chrome'',
      ''/var/lib/flatpak/exports/bin/com.google.Chrome'',
      ''/var/lib/flatpak/exports/bin/org.chromium.Chromium'',
      ''/usr/bin/brave-browser'', ''/usr/bin/brave'', ''/opt/brave.com/brave/brave-browser'']"

definition exampleWorld :: "string list \<Rightarrow> string list \<Rightarrow> dirent list \<Rightarrow> world" where
  "exampleWorld dirs files entries =
     \<lparr>argv = [''bun'', ''make-pdf.js'', ''deck.webslider'', ''out/deck.pdf''],
      path_resolve = (\<lambda>p. ''/work/'' @ p),
      path_dirname = (\<lambda>p. ''/work/out''),
      stat_ok = (\<lambda>p. True),
      mkdtemp = Some ''/tmp/webslider-a'',
      mkdirp_ok = (\<lambda>p. True),
      extract_ok = (\<lambda>a d. True),
      readJson = (\<lambda>p. None),
      readdir = (\<lambda>d. if squeeze d = ''/tmp/webslider-a/project/slides'' then Some entries
                      else None),
      existsSync = (\<lambda>p. List.member (''/usr/bin/chromium'' # dirs @ files) (squeeze p)),
      isDirectory = (\<lambda>p. List.member dirs (squeeze p)),
      requestPathname = (\<lambda>p. Some (takeWhile (\<lambda>c. c \<noteq> CHR ''#'') p)),
      serve_ok = True,
      env_CHROME_PATH = None,
      platformCandidates = linuxCandidates,
      launch_ok = True,
      newPage_ok = True,
      setViewport_ok = True,
      goto_ok = (\<lambda>i. True),
      screenshot_ok = (\<lambda>i. True),
      pdfCreate_ok = True,
      readFile_ok = (\<lambda>p. True),
      embedJpg_ok = (\<lambda>p. True),
      save_ok = True,
      writeFile_ok = (\<lambda>p. True),
      browserClose_ok = (\<lambda>k. True),
      srvStop_ok = (\<lambda>k. True),
      rm_ok = (\<lambda>p. True)\<rparr>"

text \<open>Two numbered slides, listed as \<open>10\<close> before \<open>2\<close>, each with its
  \<^verbatim>\<open>index.html\<close>.\<close>

definition deckWorld :: world where
  "deckWorld =
     exampleWorld
       [''/tmp/webslider-a/project'', ''/tmp/webslider-a/project/slides'',
        ''/tmp/webslider-a/project/slides/10'', ''/tmp/webslider-a/project/slides/2'']
       [''/tmp/webslider-a/project/slides/10/index.html'',
        ''/tmp/webslider-a/project/slides/2/index.html'']
       [\<lparr>d_name = ''10'', d_isDirectory = True\<rparr>, \<lparr>d_name = ''2'', d_isDirectory = True\<rparr>]"

text \<open>The same deck where the navigation to the first slide of the list times out.\<close>

definition timeoutWorld :: world where
  "timeoutWorld = deckWorld\<lparr>goto_ok := (\<lambda>i. i \<noteq> 0)\<rparr>"


text \<open>A deck of two named folders with their \<^verbatim>\<open>index.html\<close> and a stray file.\<close>

definition namedWorld :: world where
  "namedWorld =
     exampleWorld
       [''/tmp/webslider-a/project'', ''/tmp/webslider-a/project/slides'',
        ''/tmp/webslider-a/project/slides/outro'', ''/tmp/webslider-a/project/slides/intro'',
        ''/tmp/webslider-a/project/slides/drafts'']
       [''/tmp/webslider-a/project/slides/outro/index.html'',
        ''/tmp/webslider-a/project/slides/intro/index.html'',
        ''/tmp/webslider-a/project/slides/readme.md'']
       [\<lparr>d_name = ''outro'', d_isDirectory = True\<rparr>,
        \<lparr>d_name = ''readme.md'', d_isDirectory = False\<rparr>,
        \<lparr>d_name = ''intro'', d_isDirectory = True\<rparr>,
        \<lparr>d_name = ''drafts'', d_isDirectory = True\<rparr>]"

text \<open>A deck whose only folder is named \<open>q#1\<close>: the part of a URL from \<^verbatim>\<open>#\<close>
  on is its fragment and is not sent.\<close>

definition fragmentWorld :: world where
  "fragmentWorld =
     exampleWorld
       [''/tmp/webslider-a/project'', ''/tmp/webslider-a/project/slides'',
        ''/tmp/webslider-a/project/slides/q#1'']
       [''/tmp/webslider-a/project/slides/q#1/index.html'']
       [\<lparr>d_name = ''q#1'', d_isDirectory = True\<rparr>]"

text \<open>The numbered deck called with a third argument.\<close>

definition extraArgWorld :: world where
  "extraArgWorld =
     deckWorld\<lparr>argv := [''bun'', ''make-pdf.js'', ''deck.webslider'', ''out/deck.pdf'', ''--draft'']\<rparr>"

text \<open>A deck of two named folders, \<open>intro\<close> and \<open>q#1\<close>, each with its
  \<^verbatim>\<open>index.html\<close>.\<close>

definition mixedWorld :: world where
  "mixedWorld =
     exampleWorld
       [''/tmp/webslider-a/project'', ''/tmp/webslider-a/project/slides'',
        ''/tmp/webslider-a/project/slides/q#1'', ''/tmp/webslider-a/project/slides/intro'']
       [''/tmp/webslider-a/project/slides/q#1/index.html'',
        ''/tmp/webslider-a/project/slides/intro/index.html'']
       [\<lparr>d_name = ''q#1'', d_isDirectory = True\<rparr>, \<lparr>d_name = ''intro'', d_isDirectory = True\<rparr>]"


section \<open>The computations in normal form\<close>

subsection \<open>Projections of the combinators\<close>

lemma fst_bind: "fst (bind m f) = (case snd m of Ok a \<Rightarrow> fst m @ fst (f a) | Thrown \<Rightarrow> fst m | Exited n \<Rightarrow> fst m)"
  by (cases m) (simp add: bind_def split: res.splits prod.splits)

lemma snd_bind: "snd (bind m f) = (case snd m of Ok a \<Rightarrow> snd (f a) | Thrown \<Rightarrow> Thrown | Exited n \<Rightarrow> Exited n)"
  by (cases m) (simp add: bind_def split: res.splits prod.splits)

lemma fst_thenDo: "fst (thenDo m k) = (case snd m of Ok a \<Rightarrow> fst m @ fst k | Thrown \<Rightarrow> fst m | Exited n \<Rightarrow> fst m)"
  by (simp add: thenDo_def fst_bind)

lemma snd_thenDo: "snd (thenDo m k) = (case snd m of Ok a \<Rightarrow> snd k | Thrown \<Rightarrow> Thrown | Exited n \<Rightarrow> Exited n)"
  by (simp add: thenDo_def snd_bind)

lemma fst_tryCatch: "fst (tryCatch m h) = (case snd m of Thrown \<Rightarrow> fst m @ fst (h (fst m)) | Ok a \<Rightarrow> fst m | Exited n \<Rightarrow> fst m)"
  by (cases m) (simp add: tryCatch_def split: res.splits prod.splits)

lemma snd_tryCatch: "snd (tryCatch m h) = (case snd m of Thrown \<Rightarrow> snd (h (fst m)) | Ok a \<Rightarrow> Ok a | Exited n \<Rightarrow> Exited n)"
  by (cases m) (simp add: tryCatch_def split: res.splits prod.splits)

lemmas comp_simps = fst_bind snd_bind fst_thenDo snd_thenDo fst_tryCatch snd_tryCatch
  emit_def call_def guard_def skip_def exitWith_def

lemma probe_events: "e \<in> set (fst (probe w x ps)) \<Longrightarrow> isRenderEvent e"
  by (induction ps) (auto split: if_splits prod.splits)

lemma snd_renderSlides:
  "snd (renderSlides w tmp sz n i sl imgs) =
     (if renderOk w tmp i sl then Ok (imgs @ captured w tmp sz i sl) else Thrown)"
proof (induction sl arbitrary: i imgs)
  case Nil
  show ?case by simp
next
  case (Cons s rest)
  show ?case
    by (cases "probe w (path_join tmp ''project'') (tryPaths s)")
       (simp add: Cons.IH resolveUrl_def imageOf_def comp_simps split: option.splits)
qed

lemma renderSlides_events: "e \<in> set (fst (renderSlides w tmp sz n i sl imgs)) \<Longrightarrow> isRenderEvent e"
proof (induction sl arbitrary: i imgs)
  case Nil
  then show ?case by simp
next
  case (Cons s rest)
  obtain fs r where p: "probe w (path_join tmp ''project'') (tryPaths s) = (fs, r)"
    by (cases "probe w (path_join tmp ''project'') (tryPaths s)")
  have fs: "\<And>e. e \<in> set fs \<Longrightarrow> isRenderEvent e"
    using probe_events [of _ w "path_join tmp ''project''" "tryPaths s"] by (simp add: p)
  from Cons.prems show ?case
    by (auto simp: p comp_simps snd_renderSlides dest: fs Cons.IH split: option.splits if_splits)
qed

lemma fst_composePages: "fst (composePages w imgs doc) = []"
  by (induction imgs arbitrary: doc) (simp_all add: comp_simps)

lemma snd_composePages:
  "snd (composePages w imgs doc) =
     (if list_all (\<lambda>img. readFile_ok w (img_path img) \<and> embedJpg_ok w (img_path img)) imgs
      then Ok (doc @ map pageOf imgs) else Thrown)"
  by (induction imgs arbitrary: doc) (simp_all add: comp_simps)

lemma thenDo_emit: "thenDo (emit e) k = prepend [e] k"
  by (simp add: thenDo_def bind_def emit_def prepend_def split: prod.splits)

lemma thenDo_call: "thenDo (call e ok) k = (if ok then prepend [e] k else ([e], Thrown))"
  by (simp add: thenDo_def bind_def call_def prepend_def split: prod.splits)

lemma thenDo_guard: "thenDo (guard ok) k = (if ok then k else ([], Thrown))"
  by (simp add: thenDo_def bind_def guard_def split: prod.splits)

lemma thenDo_skip: "thenDo skip k = k"
  by (simp add: thenDo_def bind_def skip_def split: prod.splits)

lemma thenDo_if: "thenDo (if c then a else b) k = (if c then thenDo a k else thenDo b k)"
  by simp

lemma thenDo_prepend: "thenDo (prepend es m) k = prepend es (thenDo m k)"
  by (cases m) (simp add: thenDo_def bind_def prepend_def split: prod.splits res.splits)

lemma thenDo_pair:
  "thenDo (es, Ok u) k = prepend es k"
  "thenDo (es, Thrown) k = (es, Thrown)"
  "thenDo (es, Exited n) k = (es, Exited n)"
  by (simp_all add: thenDo_def bind_def prepend_def split: prod.splits)

lemma thenDo_case:
  "thenDo (case x of None \<Rightarrow> a | Some y \<Rightarrow> b y) k = (case x of None \<Rightarrow> thenDo a k | Some y \<Rightarrow> thenDo (b y) k)"
  by (simp split: option.splits)

lemma bind_if: "bind (if c then a else b) f = (if c then bind a f else bind b f)"
  by simp

lemma bind_prepend: "bind (prepend es m) f = prepend es (bind m f)"
  by (cases m) (simp add: bind_def prepend_def split: prod.splits res.splits)

lemma bind_pair:
  "bind (es, Ok a) f = prepend es (f a)"
  "bind (es, Thrown) f = (es, Thrown)"
  "bind (es, Exited n) f = (es, Exited n)"
  by (simp_all add: bind_def prepend_def split: prod.splits)

lemma bind_case:
  "bind (case x of None \<Rightarrow> a | Some y \<Rightarrow> b y) f = (case x of None \<Rightarrow> bind a f | Some y \<Rightarrow> bind (b y) f)"
  by (simp split: option.splits)

lemma prepend_if: "prepend es (if c then a else b) = (if c then prepend es a else prepend es b)"
  by simp

lemma prepend_prepend: "prepend es (prepend es' m) = prepend (es @ es') m"
  by (simp add: prepend_def)

lemma prepend_pair: "prepend es (xs, r) = (es @ xs, r)"
  by (simp add: prepend_def)

lemma prepend_case:
  "prepend es (case x of None \<Rightarrow> a | Some y \<Rightarrow> b y) = (case x of None \<Rightarrow> prepend es a | Some y \<Rightarrow> prepend es (b y))"
  by (simp split: option.splits)

lemma tryCatch_if: "tryCatch (if c then a else b) h = (if c then tryCatch a h else tryCatch b h)"
  by simp

lemma tryCatch_prepend: "tryCatch (prepend es m) h = prepend es (tryCatch m (\<lambda>pre. h (es @ pre)))"
  by (cases m) (simp add: tryCatch_def prepend_def split: prod.splits res.splits)

lemma tryCatch_pair:
  "tryCatch (es, Ok a) h = (es, Ok a)"
  "tryCatch (es, Thrown) h = prepend es (h es)"
  "tryCatch (es, Exited n) h = (es, Exited n)"
  by (simp_all add: tryCatch_def prepend_def split: prod.splits)

lemma tryCatch_call: "tryCatch (call e ok) h = (if ok then ([e], Ok ()) else prepend [e] (h [e]))"
  by (simp add: call_def tryCatch_pair)

lemma exitWith_pair: "exitWith n = ([], Exited n)"
  by (simp add: exitWith_def)

lemma emit_pair: "emit e = ([e], Ok ())"
  by (simp add: emit_def)

lemma call_pair: "call e ok = (if ok then ([e], Ok ()) else ([e], Thrown))"
  by (simp add: call_def)

lemma renderSlides_nf:
  "renderSlides w tmp sz n i sl imgs =
     (if renderOk w tmp i sl then (renderTrace w tmp sz n i sl imgs, Ok (imgs @ captured w tmp sz i sl))
      else (renderTrace w tmp sz n i sl imgs, Thrown))"
  by (simp add: prod_eq_iff renderTrace_def snd_renderSlides)

lemma composePages_nf:
  "composePages w imgs doc =
     (if list_all (\<lambda>img. readFile_ok w (img_path img) \<and> embedJpg_ok w (img_path img)) imgs
      then ([], Ok (doc @ map pageOf imgs)) else ([], Thrown))"
  by (simp add: prod_eq_iff fst_composePages snd_composePages)

lemma renderTrace_notin [simp]: "\<not> isRenderEvent e \<Longrightarrow> e \<notin> set (renderTrace w tmp sz n i sl imgs)"
  by (auto simp: renderTrace_def dest: renderSlides_events)

lemma renderTrace_count [simp]: "\<not> isRenderEvent e \<Longrightarrow> count_list (renderTrace w tmp sz n i sl imgs) e = 0"
  by (simp add: count_list_0_iff)

lemmas nf = thenDo_emit thenDo_call thenDo_guard thenDo_skip thenDo_if thenDo_prepend thenDo_pair
  thenDo_case bind_if bind_prepend bind_pair bind_case prepend_if prepend_prepend prepend_pair
  prepend_case tryCatch_if tryCatch_prepend tryCatch_pair tryCatch_call exitWith_pair
  emit_pair call_pair renderSlides_nf composePages_nf

lemma catchBlock_nf: "catchBlock w pre = (catchTrace w (count_list pre CloseBrowser), Exited 1)"
  by (simp add: catchBlock_def catchTrace_def nf)

lemmas stage_defs = tryBody_def writePdf_def finish_def Let_def catchBlock_nf imagesOk_def mkdirpOk_def mkdirpTrace_def

lemma stage_newPage:
  "\<not> newPage_ok w \<Longrightarrow> tryCatch (tryBody w tmp sz sd) (catchBlock w) = (NewPage # catchTrace w 0, Exited 1)"
  by (simp add: stage_defs nf)

lemma stage_setViewport:
  "newPage_ok w \<Longrightarrow> \<not> setViewport_ok w \<Longrightarrow>
   tryCatch (tryBody w tmp sz sd) (catchBlock w) = ([NewPage, SetViewport (fst sz) (snd sz)] @ catchTrace w 0, Exited 1)"
  by (simp add: stage_defs nf)

lemma stage_render:
  "newPage_ok w \<Longrightarrow> setViewport_ok w \<Longrightarrow> \<not> renderOk w tmp 0 sd \<Longrightarrow>
   tryCatch (tryBody w tmp sz sd) (catchBlock w) =
     ([NewPage, SetViewport (fst sz) (snd sz)] @ renderTrace w tmp sz (length sd) 0 sd [] @ catchTrace w 0, Exited 1)"
  by (simp add: stage_defs nf)

lemma stage_none_close:
  "newPage_ok w \<Longrightarrow> setViewport_ok w \<Longrightarrow> renderOk w tmp 0 sd \<Longrightarrow> captured w tmp sz 0 sd = [] \<Longrightarrow>
   \<not> browserClose_ok w 0 \<Longrightarrow>
   tryCatch (tryBody w tmp sz sd) (catchBlock w) =
     ([NewPage, SetViewport (fst sz) (snd sz)] @ renderTrace w tmp sz (length sd) 0 sd [] @
      [Error NoRenderableSlides, CloseBrowser] @ catchTrace w 1, Exited 1)"
  by (simp add: stage_defs nf)

lemma stage_none_stop:
  "newPage_ok w \<Longrightarrow> setViewport_ok w \<Longrightarrow> renderOk w tmp 0 sd \<Longrightarrow> captured w tmp sz 0 sd = [] \<Longrightarrow>
   browserClose_ok w 0 \<Longrightarrow> \<not> srvStop_ok w 0 \<Longrightarrow>
   tryCatch (tryBody w tmp sz sd) (catchBlock w) =
     ([NewPage, SetViewport (fst sz) (snd sz)] @ renderTrace w tmp sz (length sd) 0 sd [] @
      [Error NoRenderableSlides, CloseBrowser, StopServer] @ catchTrace w 1, Exited 1)"
  by (simp add: stage_defs nf)

lemma stage_none:
  "newPage_ok w \<Longrightarrow> setViewport_ok w \<Longrightarrow> renderOk w tmp 0 sd \<Longrightarrow> captured w tmp sz 0 sd = [] \<Longrightarrow>
   browserClose_ok w 0 \<Longrightarrow> srvStop_ok w 0 \<Longrightarrow>
   tryCatch (tryBody w tmp sz sd) (catchBlock w) =
     ([NewPage, SetViewport (fst sz) (snd sz)] @ renderTrace w tmp sz (length sd) 0 sd [] @
      [Error NoRenderableSlides, CloseBrowser, StopServer], Exited 1)"
  by (simp add: stage_defs nf)

lemma stage_compose:
  "newPage_ok w \<Longrightarrow> setViewport_ok w \<Longrightarrow> renderOk w tmp 0 sd \<Longrightarrow> captured w tmp sz 0 sd \<noteq> [] \<Longrightarrow>
   \<not> (pdfCreate_ok w \<and> imagesOk w (captured w tmp sz 0 sd)) \<Longrightarrow>
   tryCatch (tryBody w tmp sz sd) (catchBlock w) =
     ([NewPage, SetViewport (fst sz) (snd sz)] @ renderTrace w tmp sz (length sd) 0 sd [] @
      [LogComposing] @ catchTrace w 0, Exited 1)"
  by (auto simp add: stage_defs nf)

lemma stage_mkdirp:
  assumes "newPage_ok w" "setViewport_ok w" "renderOk w tmp 0 sd" "captured w tmp sz 0 sd \<noteq> []"
    "pdfCreate_ok w" "imagesOk w (captured w tmp sz 0 sd)" "\<not> mkdirpOk w"
  shows "tryCatch (tryBody w tmp sz sd) (catchBlock w) =
     ([NewPage, SetViewport (fst sz) (snd sz)] @ renderTrace w tmp sz (length sd) 0 sd [] @
      [LogComposing] @ mkdirpTrace w @ catchTrace w 0, Exited 1)"
proof -
  have "path_dirname w (outPdfPath w) \<noteq> []" "path_dirname w (outPdfPath w) \<noteq> ''.''"
    "\<not> mkdirp_ok w (path_dirname w (outPdfPath w))"
    using assms(7) by (simp_all add: mkdirpOk_def split: if_splits)
  with assms(1-6) show ?thesis
    by (simp add: tryBody_def writePdf_def finish_def Let_def catchBlock_nf imagesOk_def
          mkdirpTrace_def nf)
qed

lemma stage_save:
  "newPage_ok w \<Longrightarrow> setViewport_ok w \<Longrightarrow> renderOk w tmp 0 sd \<Longrightarrow> captured w tmp sz 0 sd \<noteq> [] \<Longrightarrow>
   pdfCreate_ok w \<Longrightarrow> imagesOk w (captured w tmp sz 0 sd) \<Longrightarrow> mkdirpOk w \<Longrightarrow> \<not> save_ok w \<Longrightarrow>
   tryCatch (tryBody w tmp sz sd) (catchBlock w) =
     ([NewPage, SetViewport (fst sz) (snd sz)] @ renderTrace w tmp sz (length sd) 0 sd [] @
      [LogComposing] @ mkdirpTrace w @ catchTrace w 0, Exited 1)"
  by (simp add: stage_defs nf)

lemma stage_write:
  "newPage_ok w \<Longrightarrow> setViewport_ok w \<Longrightarrow> renderOk w tmp 0 sd \<Longrightarrow> captured w tmp sz 0 sd \<noteq> [] \<Longrightarrow>
   pdfCreate_ok w \<Longrightarrow> imagesOk w (captured w tmp sz 0 sd) \<Longrightarrow> mkdirpOk w \<Longrightarrow> save_ok w \<Longrightarrow>
   \<not> writeFile_ok w (outPdfPath w) \<Longrightarrow>
   tryCatch (tryBody w tmp sz sd) (catchBlock w) =
     ([NewPage, SetViewport (fst sz) (snd sz)] @ renderTrace w tmp sz (length sd) 0 sd [] @
      [LogComposing] @ mkdirpTrace w @
      [WriteFile (outPdfPath w) (map pageOf (captured w tmp sz 0 sd))] @ catchTrace w 0, Exited 1)"
  by (simp add: stage_defs nf)

lemma stage_close:
  "newPage_ok w \<Longrightarrow> setViewport_ok w \<Longrightarrow> renderOk w tmp 0 sd \<Longrightarrow> captured w tmp sz 0 sd \<noteq> [] \<Longrightarrow>
   pdfCreate_ok w \<Longrightarrow> imagesOk w (captured w tmp sz 0 sd) \<Longrightarrow> mkdirpOk w \<Longrightarrow> save_ok w \<Longrightarrow>
   writeFile_ok w (outPdfPath w) \<Longrightarrow> \<not> browserClose_ok w 0 \<Longrightarrow>
   tryCatch (tryBody w tmp sz sd) (catchBlock w) =
     ([NewPage, SetViewport (fst sz) (snd sz)] @ renderTrace w tmp sz (length sd) 0 sd [] @
      [LogComposing] @ mkdirpTrace w @
      [WriteFile (outPdfPath w) (map pageOf (captured w tmp sz 0 sd)),
       LogWritten (outPdfPath w) (length (captured w tmp sz 0 sd)), CloseBrowser] @ catchTrace w 1, Exited 1)"
  by (simp add: stage_defs nf)

lemma stage_stop:
  "newPage_ok w \<Longrightarrow> setViewport_ok w \<Longrightarrow> renderOk w tmp 0 sd \<Longrightarrow> captured w tmp sz 0 sd \<noteq> [] \<Longrightarrow>
   pdfCreate_ok w \<Longrightarrow> imagesOk w (captured w tmp sz 0 sd) \<Longrightarrow> mkdirpOk w \<Longrightarrow> save_ok w \<Longrightarrow>
   writeFile_ok w (outPdfPath w) \<Longrightarrow> browserClose_ok w 0 \<Longrightarrow> \<not> srvStop_ok w 0 \<Longrightarrow>
   tryCatch (tryBody w tmp sz sd) (catchBlock w) =
     ([NewPage, SetViewport (fst sz) (snd sz)] @ renderTrace w tmp sz (length sd) 0 sd [] @
      [LogComposing] @ mkdirpTrace w @
      [WriteFile (outPdfPath w) (map pageOf (captured w tmp sz 0 sd)),
       LogWritten (outPdfPath w) (length (captured w tmp sz 0 sd)), CloseBrowser, StopServer] @
      catchTrace w 1, Exited 1)"
  by (simp add: stage_defs nf)

lemma stage_done:
  "newPage_ok w \<Longrightarrow> setViewport_ok w \<Longrightarrow> renderOk w tmp 0 sd \<Longrightarrow> captured w tmp sz 0 sd \<noteq> [] \<Longrightarrow>
   pdfCreate_ok w \<Longrightarrow> imagesOk w (captured w tmp sz 0 sd) \<Longrightarrow> mkdirpOk w \<Longrightarrow> save_ok w \<Longrightarrow>
   writeFile_ok w (outPdfPath w) \<Longrightarrow> browserClose_ok w 0 \<Longrightarrow> srvStop_ok w 0 \<Longrightarrow>
   tryCatch (tryBody w tmp sz sd) (catchBlock w) =
     ([NewPage, SetViewport (fst sz) (snd sz)] @ renderTrace w tmp sz (length sd) 0 sd [] @
      [LogComposing] @ mkdirpTrace w @
      [WriteFile (outPdfPath w) (map pageOf (captured w tmp sz 0 sd)),
       LogWritten (outPdfPath w) (length (captured w tmp sz 0 sd)), CloseBrowser, StopServer,
       RemoveTmp tmp] @ (if rm_ok w tmp then [] else [WarnCleanup]) @ [LogDone], Ok ())"
  by (simp add: stage_defs nf)

lemma findSlides_nf:
  "findSlides w x =
     (if listNumericSlideFolders w (path_join x ''slides'') \<noteq> []
      then ([], Ok (listNumericSlideFolders w (path_join x ''slides'')))
      else (case listIndexSlideFolders w (path_join x ''slides'') of
              None \<Rightarrow> ([WarnNoNumeric, Error NoSlidesFound], Exited 1)
            | Some c \<Rightarrow> if c = [] then ([WarnNoNumeric, Error NoSlidesFound], Exited 1)
                        else ([WarnNoNumeric], Ok c)))"
  by (simp add: findSlides_def Let_def nf split: option.splits)

lemma findSlides_cases:
  "(slideDirsOf w x = [] \<and> findSlides w x = ([WarnNoNumeric, Error NoSlidesFound], Exited 1)) \<or>
   (slideDirsOf w x \<noteq> [] \<and>
    findSlides w x =
      ((if listNumericSlideFolders w (path_join x ''slides'') = [] then [WarnNoNumeric] else []),
       Ok (slideDirsOf w x)))"
  by (simp add: slideDirsOf_def findSlides_nf split: option.splits)

lemmas main_defs = main_def stageAndRender_def serveAndRender_def Let_def stagingTrace_def
  foundTrace_def setupTrace_def canvasOf_def

lemma main_stat:
  "\<not> stat_ok w (archivePath w) \<Longrightarrow>
   main w = ([LogPlatform, Stat (archivePath w), Error ArchiveNotFound], Exited 1)"
  by (simp add: main_defs nf)

lemma main_mkdtemp:
  "stat_ok w (archivePath w) \<Longrightarrow> mkdtemp w = None \<Longrightarrow>
   main w = ([LogPlatform, Stat (archivePath w), Mkdtemp], Thrown)"
  by (simp add: main_defs nf)

lemma main_mkdirp:
  "stat_ok w (archivePath w) \<Longrightarrow> mkdtemp w = Some tmp \<Longrightarrow>
   \<not> mkdirp_ok w (path_join tmp ''project'') \<Longrightarrow>
   main w = ([LogPlatform, Stat (archivePath w), Mkdtemp, Mkdirp (path_join tmp ''project'')], Thrown)"
  by (simp add: main_defs nf)

lemma main_extract:
  "stat_ok w (archivePath w) \<Longrightarrow> mkdtemp w = Some tmp \<Longrightarrow>
   mkdirp_ok w (path_join tmp ''project'') \<Longrightarrow>
   \<not> extract_ok w (archivePath w) (path_join tmp ''project'') \<Longrightarrow>
   main w = ([LogPlatform, Stat (archivePath w), Mkdtemp, Mkdirp (path_join tmp ''project''),
              LogExtracting (path_join tmp ''project''),
              Extract (archivePath w) (path_join tmp ''project''), Error ExtractionFailed], Exited 1)"
  by (simp add: main_defs nf)

lemma main_noslides:
  "stat_ok w (archivePath w) \<Longrightarrow> mkdtemp w = Some tmp \<Longrightarrow>
   mkdirp_ok w (path_join tmp ''project'') \<Longrightarrow>
   extract_ok w (archivePath w) (path_join tmp ''project'') \<Longrightarrow>
   slideDirsOf w (path_join tmp ''project'') = [] \<Longrightarrow>
   main w = (stagingTrace w tmp @ [WarnNoNumeric, Error NoSlidesFound], Exited 1)"
  using findSlides_cases [of w "path_join tmp ''project''"]
  by (simp add: main_defs nf)

lemma main_serve:
  "stat_ok w (archivePath w) \<Longrightarrow> mkdtemp w = Some tmp \<Longrightarrow>
   mkdirp_ok w (path_join tmp ''project'') \<Longrightarrow>
   extract_ok w (archivePath w) (path_join tmp ''project'') \<Longrightarrow>
   slideDirsOf w (path_join tmp ''project'') \<noteq> [] \<Longrightarrow> \<not> serve_ok w \<Longrightarrow>
   main w = (foundTrace w tmp, Thrown)"
  using findSlides_cases [of w "path_join tmp ''project''"]
  by (simp add: main_defs nf)

lemma main_nochrome:
  "stat_ok w (archivePath w) \<Longrightarrow> mkdtemp w = Some tmp \<Longrightarrow>
   mkdirp_ok w (path_join tmp ''project'') \<Longrightarrow>
   extract_ok w (archivePath w) (path_join tmp ''project'') \<Longrightarrow>
   slideDirsOf w (path_join tmp ''project'') \<noteq> [] \<Longrightarrow> serve_ok w \<Longrightarrow>
   findSystemChrome w = None \<Longrightarrow>
   main w = (foundTrace w tmp @ [LogServing, Error BrowserNotFound, StopServer],
             if srvStop_ok w 0 then Exited 1 else Thrown)"
  using findSlides_cases [of w "path_join tmp ''project''"]
  by (simp add: main_defs nf)

lemma main_launch:
  "stat_ok w (archivePath w) \<Longrightarrow> mkdtemp w = Some tmp \<Longrightarrow>
   mkdirp_ok w (path_join tmp ''project'') \<Longrightarrow>
   extract_ok w (archivePath w) (path_join tmp ''project'') \<Longrightarrow>
   slideDirsOf w (path_join tmp ''project'') \<noteq> [] \<Longrightarrow> serve_ok w \<Longrightarrow>
   findSystemChrome w = Some c \<Longrightarrow> \<not> launch_ok w \<Longrightarrow>
   main w = (setupTrace w tmp c, Thrown)"
  using findSlides_cases [of w "path_join tmp ''project''"]
  by (simp add: main_defs nf)

lemma main_render:
  "stat_ok w (archivePath w) \<Longrightarrow> mkdtemp w = Some tmp \<Longrightarrow>
   mkdirp_ok w (path_join tmp ''project'') \<Longrightarrow>
   extract_ok w (archivePath w) (path_join tmp ''project'') \<Longrightarrow>
   slideDirsOf w (path_join tmp ''project'') \<noteq> [] \<Longrightarrow> serve_ok w \<Longrightarrow>
   findSystemChrome w = Some c \<Longrightarrow> launch_ok w \<Longrightarrow>
   main w = prepend (setupTrace w tmp c)
              (tryCatch (tryBody w tmp (canvasOf w tmp) (slideDirsOf w (path_join tmp ''project'')))
                 (catchBlock w))"
  using findSlides_cases [of w "path_join tmp ''project''"]
  by (simp add: main_defs thenDo_emit thenDo_call thenDo_pair thenDo_if bind_pair bind_prepend
        bind_if prepend_prepend prepend_if prepend_pair tryCatch_call exitWith_pair thenDo_prepend)

lemma stage_cases:
  fixes w tmp sz sd
  defines "T \<equiv> tryCatch (tryBody w tmp sz sd) (catchBlock w)"
    and "P \<equiv> [NewPage, SetViewport (fst sz) (snd sz)] @ renderTrace w tmp sz (length sd) 0 sd []"
    and "imgs \<equiv> captured w tmp sz 0 sd"
  shows
   "(\<not> newPage_ok w \<and> T = (NewPage # catchTrace w 0, Exited 1)) \<or>
    (\<not> setViewport_ok w \<and>
     T = ([NewPage, SetViewport (fst sz) (snd sz)] @ catchTrace w 0, Exited 1)) \<or>
    (\<not> renderOk w tmp 0 sd \<and> T = (P @ catchTrace w 0, Exited 1)) \<or>
    (renderOk w tmp 0 sd \<and> imgs = [] \<and>
       ((\<not> browserClose_ok w 0 \<and>
         T = (P @ [Error NoRenderableSlides, CloseBrowser] @ catchTrace w 1, Exited 1)) \<or>
        (browserClose_ok w 0 \<and> \<not> srvStop_ok w 0 \<and>
         T = (P @ [Error NoRenderableSlides, CloseBrowser, StopServer] @ catchTrace w 1, Exited 1)) \<or>
        (browserClose_ok w 0 \<and> srvStop_ok w 0 \<and>
         T = (P @ [Error NoRenderableSlides, CloseBrowser, StopServer], Exited 1)))) \<or>
    (renderOk w tmp 0 sd \<and> imgs \<noteq> [] \<and>
       ((\<not> (pdfCreate_ok w \<and> imagesOk w imgs) \<and>
         T = (P @ [LogComposing] @ catchTrace w 0, Exited 1)) \<or>
        (pdfCreate_ok w \<and> imagesOk w imgs \<and> \<not> (mkdirpOk w \<and> save_ok w) \<and>
         T = (P @ [LogComposing] @ mkdirpTrace w @ catchTrace w 0, Exited 1)) \<or>
        (pdfCreate_ok w \<and> imagesOk w imgs \<and> mkdirpOk w \<and> save_ok w \<and>
         \<not> writeFile_ok w (outPdfPath w) \<and>
         T = (P @ [LogComposing] @ mkdirpTrace w @
               [WriteFile (outPdfPath w) (map pageOf imgs)] @ catchTrace w 0, Exited 1)) \<or>
        (pdfCreate_ok w \<and> imagesOk w imgs \<and> mkdirpOk w \<and> save_ok w \<and>
         writeFile_ok w (outPdfPath w) \<and> \<not> browserClose_ok w 0 \<and>
         T = (P @ [LogComposing] @ mkdirpTrace w @
               [WriteFile (outPdfPath w) (map pageOf imgs),
                LogWritten (outPdfPath w) (length imgs), CloseBrowser] @ catchTrace w 1, Exited 1)) \<or>
        (pdfCreate_ok w \<and> imagesOk w imgs \<and> mkdirpOk w \<and> save_ok w \<and>
         writeFile_ok w (outPdfPath w) \<and> browserClose_ok w 0 \<and> \<not> srvStop_ok w 0 \<and>
         T = (P @ [LogComposing] @ mkdirpTrace w @
               [WriteFile (outPdfPath w) (map pageOf imgs),
                LogWritten (outPdfPath w) (length imgs), CloseBrowser, StopServer] @
               catchTrace w 1, Exited 1)) \<or>
        (pdfCreate_ok w \<and> imagesOk w imgs \<and> mkdirpOk w \<and> save_ok w \<and>
         writeFile_ok w (outPdfPath w) \<and> browserClose_ok w 0 \<and> srvStop_ok w 0 \<and>
         T = (P @ [LogComposing] @ mkdirpTrace w @
               [WriteFile (outPdfPath w) (map pageOf imgs),
                LogWritten (outPdfPath w) (length imgs), CloseBrowser, StopServer,
                RemoveTmp tmp] @ (if rm_ok w tmp then [] else [WarnCleanup]) @ [LogDone], Ok ()))))"
proof -
  consider
      (a) "\<not> newPage_ok w"
    | (b) "newPage_ok w" "\<not> setViewport_ok w"
    | (c) "newPage_ok w" "setViewport_ok w" "\<not> renderOk w tmp 0 sd"
    | (d) "newPage_ok w" "setViewport_ok w" "renderOk w tmp 0 sd" "imgs = []" "\<not> browserClose_ok w 0"
    | (e) "newPage_ok w" "setViewport_ok w" "renderOk w tmp 0 sd" "imgs = []" "browserClose_ok w 0"
          "\<not> srvStop_ok w 0"
    | (f) "newPage_ok w" "setViewport_ok w" "renderOk w tmp 0 sd" "imgs = []" "browserClose_ok w 0"
          "srvStop_ok w 0"
    | (g) "newPage_ok w" "setViewport_ok w" "renderOk w tmp 0 sd" "imgs \<noteq> []"
          "\<not> (pdfCreate_ok w \<and> imagesOk w imgs)"
    | (h) "newPage_ok w" "setViewport_ok w" "renderOk w tmp 0 sd" "imgs \<noteq> []"
          "pdfCreate_ok w" "imagesOk w imgs" "\<not> mkdirpOk w"
    | (i) "newPage_ok w" "setViewport_ok w" "renderOk w tmp 0 sd" "imgs \<noteq> []"
          "pdfCreate_ok w" "imagesOk w imgs" "mkdirpOk w" "\<not> save_ok w"
    | (j) "newPage_ok w" "setViewport_ok w" "renderOk w tmp 0 sd" "imgs \<noteq> []"
          "pdfCreate_ok w" "imagesOk w imgs" "mkdirpOk w" "save_ok w"
          "\<not> writeFile_ok w (outPdfPath w)"
    | (k) "newPage_ok w" "setViewport_ok w" "renderOk w tmp 0 sd" "imgs \<noteq> []"
          "pdfCreate_ok w" "imagesOk w imgs" "mkdirpOk w" "save_ok w"
          "writeFile_ok w (outPdfPath w)" "\<not> browserClose_ok w 0"
    | (l) "newPage_ok w" "setViewport_ok w" "renderOk w tmp 0 sd" "imgs \<noteq> []"
          "pdfCreate_ok w" "imagesOk w imgs" "mkdirpOk w" "save_ok w"
          "writeFile_ok w (outPdfPath w)" "browserClose_ok w 0" "\<not> srvStop_ok w 0"
    | (m) "newPage_ok w" "setViewport_ok w" "renderOk w tmp 0 sd" "imgs \<noteq> []"
          "pdfCreate_ok w" "imagesOk w imgs" "mkdirpOk w" "save_ok w"
          "writeFile_ok w (outPdfPath w)" "browserClose_ok w 0" "srvStop_ok w 0"
    by blast
  then show ?thesis
  proof cases
    case a then show ?thesis unfolding T_def by (simp add: stage_newPage)
  next
    case b then show ?thesis unfolding T_def by (simp add: stage_setViewport)
  next
    case c then show ?thesis unfolding T_def P_def by (simp add: stage_render)
  next
    case d then show ?thesis unfolding T_def P_def imgs_def by (simp add: stage_none_close)
  next
    case e then show ?thesis unfolding T_def P_def imgs_def by (simp add: stage_none_stop)
  next
    case f then show ?thesis unfolding T_def P_def imgs_def by (simp add: stage_none)
  next
    case g then show ?thesis unfolding T_def P_def imgs_def by (simp add: stage_compose)
  next
    case h then show ?thesis unfolding T_def P_def imgs_def by (simp add: stage_mkdirp)
  next
    case i then show ?thesis unfolding T_def P_def imgs_def by (simp add: stage_save)
  next
    case j then show ?thesis unfolding T_def P_def imgs_def by (simp add: stage_write)
  next
    case k then show ?thesis unfolding T_def P_def imgs_def by (simp add: stage_close)
  next
    case l then show ?thesis unfolding T_def P_def imgs_def by (simp add: stage_stop)
  next
    case m then show ?thesis unfolding T_def P_def imgs_def by (simp add: stage_done)
  qed
qed

lemma run_main:
  "4 \<le> length (argv w) \<Longrightarrow> main w = (es, r) \<Longrightarrow>
   run w = (case r of Ok u \<Rightarrow> \<lparr>trace = es, exit_code = 0\<rparr>
            | Exited n \<Rightarrow> \<lparr>trace = es, exit_code = n\<rparr>
            | Thrown \<Rightarrow> \<lparr>trace = es @ [Error FatalError], exit_code = 1\<rparr>)"
  by (simp add: run_def split: res.splits)

lemma run_cases:
  "(length (argv w) < 4 \<and> run w = \<lparr>trace = [Usage], exit_code = 2\<rparr>) \<or>
   (4 \<le> length (argv w) \<and>
     ((\<not> stat_ok w (archivePath w) \<and>
       run w = \<lparr>trace = [LogPlatform, Stat (archivePath w), Error ArchiveNotFound], exit_code = 1\<rparr>) \<or>
      (stat_ok w (archivePath w) \<and>
       (run w = \<lparr>trace = [LogPlatform, Stat (archivePath w), Mkdtemp, Error FatalError], exit_code = 1\<rparr> \<or>
      (\<exists>tmp. mkdtemp w = Some tmp \<and>
        (run w = \<lparr>trace = [LogPlatform, Stat (archivePath w), Mkdtemp, Mkdirp (path_join tmp ''project''),
                            Error FatalError], exit_code = 1\<rparr> \<or>
         (\<not> extract_ok w (archivePath w) (path_join tmp ''project'') \<and>
          run w = \<lparr>trace = [LogPlatform, Stat (archivePath w), Mkdtemp, Mkdirp (path_join tmp ''project''),
                            LogExtracting (path_join tmp ''project''),
                            Extract (archivePath w) (path_join tmp ''project''),
                            Error ExtractionFailed], exit_code = 1\<rparr>) \<or>
         (slideDirsOf w (path_join tmp ''project'') = [] \<and>
          run w = \<lparr>trace = stagingTrace w tmp @ [WarnNoNumeric, Error NoSlidesFound], exit_code = 1\<rparr>) \<or>
         (slideDirsOf w (path_join tmp ''project'') \<noteq> [] \<and>
           (run w = \<lparr>trace = foundTrace w tmp @ [Error FatalError], exit_code = 1\<rparr> \<or>
            (findSystemChrome w = None \<and>
             run w = \<lparr>trace = foundTrace w tmp @ [LogServing, Error BrowserNotFound, StopServer] @
                               (if srvStop_ok w 0 then [] else [Error FatalError]), exit_code = 1\<rparr>) \<or>
            (\<exists>c. findSystemChrome w = Some c \<and>
                 (run w = \<lparr>trace = setupTrace w tmp c @ [Error FatalError], exit_code = 1\<rparr> \<or>
                 (\<exists>es r. tryCatch (tryBody w tmp (canvasOf w tmp) (slideDirsOf w (path_join tmp ''project'')))
                           (catchBlock w) = (es, r) \<and>
                         run w = (case r of Ok u \<Rightarrow> \<lparr>trace = setupTrace w tmp c @ es, exit_code = 0\<rparr>
                                  | Exited n \<Rightarrow> \<lparr>trace = setupTrace w tmp c @ es, exit_code = n\<rparr>
                                  | Thrown \<Rightarrow> \<lparr>trace = setupTrace w tmp c @ es @ [Error FatalError],
                                               exit_code = 1\<rparr>))))))))))))"
proof (cases "length (argv w) < 4")
  case True
  then show ?thesis by (simp add: run_def)
next
  case False
  then have len: "4 \<le> length (argv w)" by simp
  note rm = run_main [OF len]
  show ?thesis
  proof (cases "stat_ok w (archivePath w)")
    case False
    then show ?thesis using len by (simp add: rm [OF main_stat])
  next
    case stat: True
    show ?thesis
    proof (cases "mkdtemp w")
      case None
      then show ?thesis using len stat by (simp add: rm [OF main_mkdtemp])
    next
      case (Some tmp)
      note tmp = Some
      show ?thesis
      proof (cases "mkdirp_ok w (path_join tmp ''project'')")
        case False
        then show ?thesis using len stat tmp by (simp add: rm [OF main_mkdirp])
      next
        case mk: True
        show ?thesis
        proof (cases "extract_ok w (archivePath w) (path_join tmp ''project'')")
          case False
          then show ?thesis using len stat tmp mk by (simp add: rm [OF main_extract])
        next
          case ex: True
          show ?thesis
          proof (cases "slideDirsOf w (path_join tmp ''project'') = []")
            case True
            then show ?thesis using len stat tmp mk ex by (simp add: rm [OF main_noslides])
          next
            case sd: False
            show ?thesis
            proof (cases "serve_ok w")
              case False
              then show ?thesis using len stat tmp mk ex sd by (simp add: rm [OF main_serve])
            next
              case sv: True
              show ?thesis
              proof (cases "findSystemChrome w")
                case None
                then show ?thesis using len stat tmp mk ex sd sv
                  by (simp add: rm [OF main_nochrome])
              next
                case (Some c)
                note c = Some
                show ?thesis
                proof (cases "launch_ok w")
                  case False
                  then have "run w = \<lparr>trace = setupTrace w tmp c @ [Error FatalError], exit_code = 1\<rparr>"
                    using stat tmp mk ex sd sv c by (simp add: rm [OF main_launch])
                  then show ?thesis using len stat tmp sd c by blast
                next
                  case True
                  obtain es r where T: "tryCatch (tryBody w tmp (canvasOf w tmp)
                        (slideDirsOf w (path_join tmp ''project''))) (catchBlock w) = (es, r)"
                    by (cases "tryCatch (tryBody w tmp (canvasOf w tmp)
                        (slideDirsOf w (path_join tmp ''project''))) (catchBlock w)")
                  have "main w = (setupTrace w tmp c @ es, r)"
                    using stat tmp mk ex sd sv c True by (simp add: main_render T prepend_pair)
                  from rm [OF this] have "run w = (case r of Ok u \<Rightarrow> \<lparr>trace = setupTrace w tmp c @ es, exit_code = 0\<rparr>
                                  | Exited n \<Rightarrow> \<lparr>trace = setupTrace w tmp c @ es, exit_code = n\<rparr>
                                  | Thrown \<Rightarrow> \<lparr>trace = setupTrace w tmp c @ es @ [Error FatalError],
                                               exit_code = 1\<rparr>)"
                    by (simp split: res.splits)
                  then show ?thesis using len stat tmp sd c T by blast
                qed
              qed
            qed
          qed
        qed
      qed
    qed
  qed
qed

lemma run_cases_full:
  "(length (argv w) < 4 \<and> run w = \<lparr>trace = [Usage], exit_code = 2\<rparr>) \<or>
   (4 \<le> length (argv w) \<and>
     ((\<not> stat_ok w (archivePath w) \<and>
       run w = \<lparr>trace = [LogPlatform, Stat (archivePath w), Error ArchiveNotFound], exit_code = 1\<rparr>) \<or>
      (stat_ok w (archivePath w) \<and>
       (run w = \<lparr>trace = [LogPlatform, Stat (archivePath w), Mkdtemp, Error FatalError], exit_code = 1\<rparr> \<or>
      (\<exists>tmp. mkdtemp w = Some tmp \<and>
        (run w = \<lparr>trace = [LogPlatform, Stat (archivePath w), Mkdtemp, Mkdirp (path_join tmp ''project''),
                            Error FatalError], exit_code = 1\<rparr> \<or>
         (\<not> extract_ok w (archivePath w) (path_join tmp ''project'') \<and>
          run w = \<lparr>trace = [LogPlatform, Stat (archivePath w), Mkdtemp, Mkdirp (path_join tmp ''project''),
                            LogExtracting (path_join tmp ''project''),
                            Extract (archivePath w) (path_join tmp ''project''),
                            Error ExtractionFailed], exit_code = 1\<rparr>) \<or>
         (slideDirsOf w (path_join tmp ''project'') = [] \<and>
          run w = \<lparr>trace = stagingTrace w tmp @ [WarnNoNumeric, Error NoSlidesFound], exit_code = 1\<rparr>) \<or>
         (slideDirsOf w (path_join tmp ''project'') \<noteq> [] \<and>
           (run w = \<lparr>trace = foundTrace w tmp @ [Error FatalError], exit_code = 1\<rparr> \<or>
            (findSystemChrome w = None \<and>
             run w = \<lparr>trace = foundTrace w tmp @ [LogServing, Error BrowserNotFound, StopServer] @
                               (if srvStop_ok w 0 then [] else [Error FatalError]), exit_code = 1\<rparr>) \<or>
            (\<exists>c. findSystemChrome w = Some c \<and>
                 (run w = \<lparr>trace = setupTrace w tmp c @ [Error FatalError], exit_code = 1\<rparr> \<or>
                  (\<not> newPage_ok w \<and>
                   run w =
                     \<lparr>trace =
                        setupTrace w tmp c @ NewPage # catchTrace w 0,
                      exit_code = 1\<rparr>) \<or>
                  (\<not> setViewport_ok w \<and>
                   run w =
                     \<lparr>trace =
                        setupTrace w tmp c @ [NewPage, SetViewport (fst (canvasOf w tmp)) (snd
                        (canvasOf w tmp))] @ catchTrace w 0,
                      exit_code = 1\<rparr>) \<or>
                  (\<not> renderOk w tmp 0 (slideDirsOf w (path_join tmp ''project'')) \<and>
                   run w =
                     \<lparr>trace =
                        setupTrace w tmp c @ [NewPage, SetViewport (fst (canvasOf w tmp)) (snd
                        (canvasOf w tmp))] @ renderTrace w tmp (canvasOf w tmp) (length
                        (slideDirsOf w (path_join tmp ''project''))) 0 (slideDirsOf w (path_join
                        tmp ''project'')) [] @ catchTrace w 0,
                      exit_code = 1\<rparr>) \<or>
                  (renderOk w tmp 0 (slideDirsOf w (path_join tmp ''project'')) \<and> (captured
                   w tmp (canvasOf w tmp) 0 (slideDirsOf w (path_join tmp ''project''))) = []
                   \<and> \<not> browserClose_ok w 0 \<and>
                   run w =
                     \<lparr>trace =
                        setupTrace w tmp c @ [NewPage, SetViewport (fst (canvasOf w tmp)) (snd
                        (canvasOf w tmp))] @ renderTrace w tmp (canvasOf w tmp) (length
                        (slideDirsOf w (path_join tmp ''project''))) 0 (slideDirsOf w (path_join
                        tmp ''project'')) [] @ [Error NoRenderableSlides, CloseBrowser] @
                        catchTrace w 1,
                      exit_code = 1\<rparr>) \<or>
                  (renderOk w tmp 0 (slideDirsOf w (path_join tmp ''project'')) \<and> (captured
                   w tmp (canvasOf w tmp) 0 (slideDirsOf w (path_join tmp ''project''))) = []
                   \<and> browserClose_ok w 0 \<and> \<not> srvStop_ok w 0 \<and>
                   run w =
                     \<lparr>trace =
                        setupTrace w tmp c @ [NewPage, SetViewport (fst (canvasOf w tmp)) (snd
                        (canvasOf w tmp))] @ renderTrace w tmp (canvasOf w tmp) (length
                        (slideDirsOf w (path_join tmp ''project''))) 0 (slideDirsOf w (path_join
                        tmp ''project'')) [] @ [Error NoRenderableSlides, CloseBrowser,
                        StopServer] @ catchTrace w 1,
                      exit_code = 1\<rparr>) \<or>
                  (renderOk w tmp 0 (slideDirsOf w (path_join tmp ''project'')) \<and> (captured
                   w tmp (canvasOf w tmp) 0 (slideDirsOf w (path_join tmp ''project''))) = []
                   \<and> browserClose_ok w 0 \<and> srvStop_ok w 0 \<and>
                   run w =
                     \<lparr>trace =
                        setupTrace w tmp c @ [NewPage, SetViewport (fst (canvasOf w tmp)) (snd
                        (canvasOf w tmp))] @ renderTrace w tmp (canvasOf w tmp) (length
                        (slideDirsOf w (path_join tmp ''project''))) 0 (slideDirsOf w (path_join
                        tmp ''project'')) [] @ [Error NoRenderableSlides, CloseBrowser,
                        StopServer],
                      exit_code = 1\<rparr>) \<or>
                  (renderOk w tmp 0 (slideDirsOf w (path_join tmp ''project'')) \<and> (captured
                   w tmp (canvasOf w tmp) 0 (slideDirsOf w (path_join tmp ''project'')))
                   \<noteq> [] \<and> \<not> (pdfCreate_ok w \<and> imagesOk w (captured w tmp
                   (canvasOf w tmp) 0 (slideDirsOf w (path_join tmp ''project'')))) \<and>
                   run w =
                     \<lparr>trace =
                        setupTrace w tmp c @ [NewPage, SetViewport (fst (canvasOf w tmp)) (snd
                        (canvasOf w tmp))] @ renderTrace w tmp (canvasOf w tmp) (length
                        (slideDirsOf w (path_join tmp ''project''))) 0 (slideDirsOf w (path_join
                        tmp ''project'')) [] @ [LogComposing] @ catchTrace w 0,
                      exit_code = 1\<rparr>) \<or>
                  (renderOk w tmp 0 (slideDirsOf w (path_join tmp ''project'')) \<and> (captured
                   w tmp (canvasOf w tmp) 0 (slideDirsOf w (path_join tmp ''project'')))
                   \<noteq> [] \<and> pdfCreate_ok w \<and> imagesOk w (captured w tmp (canvasOf
                   w tmp) 0 (slideDirsOf w (path_join tmp ''project''))) \<and> \<not> (mkdirpOk
                   w \<and> save_ok w) \<and>
                   run w =
                     \<lparr>trace =
                        setupTrace w tmp c @ [NewPage, SetViewport (fst (canvasOf w tmp)) (snd
                        (canvasOf w tmp))] @ renderTrace w tmp (canvasOf w tmp) (length
                        (slideDirsOf w (path_join tmp ''project''))) 0 (slideDirsOf w (path_join
                        tmp ''project'')) [] @ [LogComposing] @ mkdirpTrace w @ catchTrace w 0,
                      exit_code = 1\<rparr>) \<or>
                  (renderOk w tmp 0 (slideDirsOf w (path_join tmp ''project'')) \<and> (captured
                   w tmp (canvasOf w tmp) 0 (slideDirsOf w (path_join tmp ''project'')))
                   \<noteq> [] \<and> pdfCreate_ok w \<and> imagesOk w (captured w tmp (canvasOf
                   w tmp) 0 (slideDirsOf w (path_join tmp ''project''))) \<and> mkdirpOk w
                   \<and> save_ok w \<and> \<not> writeFile_ok w (outPdfPath w) \<and>
                   run w =
                     \<lparr>trace =
                        setupTrace w tmp c @ [NewPage, SetViewport (fst (canvasOf w tmp)) (snd
                        (canvasOf w tmp))] @ renderTrace w tmp (canvasOf w tmp) (length
                        (slideDirsOf w (path_join tmp ''project''))) 0 (slideDirsOf w (path_join
                        tmp ''project'')) [] @ [LogComposing] @ mkdirpTrace w @ [WriteFile
                        (outPdfPath w) (map pageOf (captured w tmp (canvasOf w tmp) 0
                        (slideDirsOf w (path_join tmp ''project''))))] @ catchTrace w 0,
                      exit_code = 1\<rparr>) \<or>
                  (renderOk w tmp 0 (slideDirsOf w (path_join tmp ''project'')) \<and> (captured
                   w tmp (canvasOf w tmp) 0 (slideDirsOf w (path_join tmp ''project'')))
                   \<noteq> [] \<and> pdfCreate_ok w \<and> imagesOk w (captured w tmp (canvasOf
                   w tmp) 0 (slideDirsOf w (path_join tmp ''project''))) \<and> mkdirpOk w
                   \<and> save_ok w \<and> writeFile_ok w (outPdfPath w) \<and> \<not>
                   browserClose_ok w 0 \<and>
                   run w =
                     \<lparr>trace =
                        setupTrace w tmp c @ [NewPage, SetViewport (fst (canvasOf w tmp)) (snd
                        (canvasOf w tmp))] @ renderTrace w tmp (canvasOf w tmp) (length
                        (slideDirsOf w (path_join tmp ''project''))) 0 (slideDirsOf w (path_join
                        tmp ''project'')) [] @ [LogComposing] @ mkdirpTrace w @ [WriteFile
                        (outPdfPath w) (map pageOf (captured w tmp (canvasOf w tmp) 0
                        (slideDirsOf w (path_join tmp ''project'')))), LogWritten (outPdfPath w)
                        (length (captured w tmp (canvasOf w tmp) 0 (slideDirsOf w (path_join tmp
                        ''project'')))), CloseBrowser] @ catchTrace w 1,
                      exit_code = 1\<rparr>) \<or>
                  (renderOk w tmp 0 (slideDirsOf w (path_join tmp ''project'')) \<and> (captured
                   w tmp (canvasOf w tmp) 0 (slideDirsOf w (path_join tmp ''project'')))
                   \<noteq> [] \<and> pdfCreate_ok w \<and> imagesOk w (captured w tmp (canvasOf
                   w tmp) 0 (slideDirsOf w (path_join tmp ''project''))) \<and> mkdirpOk w
                   \<and> save_ok w \<and> writeFile_ok w (outPdfPath w) \<and> browserClose_ok
                   w 0 \<and> \<not> srvStop_ok w 0 \<and>
                   run w =
                     \<lparr>trace =
                        setupTrace w tmp c @ [NewPage, SetViewport (fst (canvasOf w tmp)) (snd
                        (canvasOf w tmp))] @ renderTrace w tmp (canvasOf w tmp) (length
                        (slideDirsOf w (path_join tmp ''project''))) 0 (slideDirsOf w (path_join
                        tmp ''project'')) [] @ [LogComposing] @ mkdirpTrace w @ [WriteFile
                        (outPdfPath w) (map pageOf (captured w tmp (canvasOf w tmp) 0
                        (slideDirsOf w (path_join tmp ''project'')))), LogWritten (outPdfPath w)
                        (length (captured w tmp (canvasOf w tmp) 0 (slideDirsOf w (path_join tmp
                        ''project'')))), CloseBrowser, StopServer] @ catchTrace w 1,
                      exit_code = 1\<rparr>) \<or>
                  (renderOk w tmp 0 (slideDirsOf w (path_join tmp ''project'')) \<and> (captured
                   w tmp (canvasOf w tmp) 0 (slideDirsOf w (path_join tmp ''project'')))
                   \<noteq> [] \<and> pdfCreate_ok w \<and> imagesOk w (captured w tmp (canvasOf
                   w tmp) 0 (slideDirsOf w (path_join tmp ''project''))) \<and> mkdirpOk w
                   \<and> save_ok w \<and> writeFile_ok w (outPdfPath w) \<and> browserClose_ok
                   w 0 \<and> srvStop_ok w 0 \<and>
                   run w =
                     \<lparr>trace =
                        setupTrace w tmp c @ [NewPage, SetViewport (fst (canvasOf w tmp)) (snd
                        (canvasOf w tmp))] @ renderTrace w tmp (canvasOf w tmp) (length
                        (slideDirsOf w (path_join tmp ''project''))) 0 (slideDirsOf w (path_join
                        tmp ''project'')) [] @ [LogComposing] @ mkdirpTrace w @ [WriteFile
                        (outPdfPath w) (map pageOf (captured w tmp (canvasOf w tmp) 0
                        (slideDirsOf w (path_join tmp ''project'')))), LogWritten (outPdfPath w)
                        (length (captured w tmp (canvasOf w tmp) 0 (slideDirsOf w (path_join tmp
                        ''project'')))), CloseBrowser, StopServer, RemoveTmp tmp] @ (if rm_ok w
                        tmp then [] else [WarnCleanup]) @ [LogDone],
                      exit_code = 0\<rparr>)))))))))))"
proof -
  have stage: "?thesis"
    if c: "findSystemChrome w = Some c" and tmp: "mkdtemp w = Some tmp" and len: "4 \<le> length (argv w)"
      and sd: "slideDirsOf w (path_join tmp ''project'') \<noteq> []"
      and T: "tryCatch (tryBody w tmp (canvasOf w tmp) (slideDirsOf w (path_join tmp ''project'')))
                (catchBlock w) = (es, r)"
      and r: "run w = (case r of Ok u \<Rightarrow> \<lparr>trace = setupTrace w tmp c @ es, exit_code = 0\<rparr>
                       | Exited n \<Rightarrow> \<lparr>trace = setupTrace w tmp c @ es, exit_code = n\<rparr>
                       | Thrown \<Rightarrow> \<lparr>trace = setupTrace w tmp c @ es @ [Error FatalError],
                                    exit_code = 1\<rparr>)"
      and stat: "stat_ok w (archivePath w)"
    for c tmp es r
    using stage_cases [of w tmp "canvasOf w tmp" "slideDirsOf w (path_join tmp ''project'')"]
    unfolding T
    by (elim disjE conjE) (simp_all add: r c tmp len sd stat)
  from run_cases [of w] show ?thesis
  proof (elim disjE exE conjE, goal_cases)
    case (10 tmp c es r)
    show ?case by (rule stage [OF 10(5) 10(3) 10(1) 10(4) 10(6) 10(7) 10(2)])
  qed simp_all
qed

subsection \<open>Facts about the rendering loop\<close>

lemmas trace_defs = stagingTrace_def foundTrace_def setupTrace_def catchTrace_def mkdirpTrace_def

lemma renderTrace_list_ex [simp]: "\<not> list_ex isWriteFile (renderTrace w tmp sz n i sl imgs)"
  by (auto simp: list_ex_iff renderTrace_def dest!: renderSlides_events elim: isWriteFile.elims)

lemma renderTrace_cleanup [simp]: "filter isCleanup (renderTrace w tmp sz n i sl imgs) = []"
  by (auto simp: filter_empty_conv renderTrace_def dest!: renderSlides_events elim: isCleanup.elims)

lemma renderOk_goto:
  "renderOk w tmp k sl \<Longrightarrow> i < length sl \<Longrightarrow>
   resolveUrl w (path_join tmp ''project'') (sl ! i) \<noteq> None \<Longrightarrow> goto_ok w (k + i)"
proof (induction sl arbitrary: k i)
  case Nil
  then show ?case by simp
next
  case (Cons s rest)
  show ?case
  proof (cases i)
    case 0
    with Cons.prems show ?thesis by (simp split: if_splits)
  next
    case (Suc i')
    with Cons.prems have "renderOk w tmp (Suc k) rest" "i' < length rest"
      "resolveUrl w (path_join tmp ''project'') (rest ! i') \<noteq> None"
      by (simp_all split: if_splits)
    then have "goto_ok w (Suc k + i')" by (rule Cons.IH)
    with Suc show ?thesis by simp
  qed
qed

lemma probe_no_log: "LogRendering a b c \<notin> set (fst (probe w x ps))"
  using probe_events [of "LogRendering a b c" w x ps]
  by (induction ps) (auto split: if_splits prod.splits)

lemma render_progress:
  "LogRendering (Suc j) m s \<in> set (fst (renderSlides w tmp sz n k sl imgs)) \<Longrightarrow>
   i < length sl \<Longrightarrow> k + i < j \<Longrightarrow>
   resolveUrl w (path_join tmp ''project'') (sl ! i) \<noteq> None \<Longrightarrow> goto_ok w (k + i)"
proof (induction sl arbitrary: k i imgs)
  case Nil
  then show ?case by simp
next
  case (Cons s0 rest)
  obtain fs r where p: "probe w (path_join tmp ''project'') (tryPaths s0) = (fs, r)"
    by (cases "probe w (path_join tmp ''project'') (tryPaths s0)")
  have fs: "LogRendering (Suc j) m s \<notin> set fs"
    using probe_no_log [of "Suc j" m s w "path_join tmp ''project''" "tryPaths s0"] by (simp add: p)
  show ?case
  proof (cases i)
    case 0
    with Cons.prems fs show ?thesis
      by (auto simp: p resolveUrl_def comp_simps split: option.splits if_splits res.splits)
  next
    case (Suc i')
    from Cons.prems fs obtain imgs' where
      "LogRendering (Suc j) m s \<in> set (fst (renderSlides w tmp sz n (Suc k) rest imgs'))"
      by (auto simp: p comp_simps split: option.splits if_splits res.splits)
    moreover from Cons.prems Suc have "i' < length rest" "Suc k + i' < j"
      "resolveUrl w (path_join tmp ''project'') (rest ! i') \<noteq> None" by simp_all
    ultimately have "goto_ok w (Suc k + i')" by (rule Cons.IH)
    with Suc show ?thesis by simp
  qed
qed

lemma renderTrace_progress:
  "i < length sl \<Longrightarrow> i < j \<Longrightarrow> resolveUrl w (path_join tmp ''project'') (sl ! i) \<noteq> None \<Longrightarrow>
   \<not> goto_ok w i \<Longrightarrow> LogRendering (Suc j) m s \<notin> set (renderTrace w tmp sz n 0 sl imgs)"
  using render_progress [of j m s w tmp sz n 0 sl imgs i] by (auto simp: renderTrace_def)

subsection \<open>Numbers of folder names\<close>

lemma bitlen_le: "n < 2 ^ k \<Longrightarrow> bitlen n \<le> k"
proof (induction k arbitrary: n)
  case 0
  then show ?case by simp
next
  case (Suc k)
  show ?case
  proof (cases "n = 0")
    case True
    then show ?thesis by simp
  next
    case False
    with Suc.prems have "n div 2 < 2 ^ k" by simp
    then have "bitlen (n div 2) \<le> k" by (rule Suc.IH)
    with False show ?thesis by simp
  qed
qed

lemma toDouble_small: "n < 2 ^ 53 \<Longrightarrow> toDouble n = enat n"
proof -
  assume a: "n < 2 ^ 53"
  then have "bitlen n - 53 = 0" using bitlen_le [of n 53] by simp
  moreover have "n < 2 ^ 1024" using a by (rule less_le_trans) simp
  ultimately show ?thesis by (simp add: toDouble_def Let_def del: bitlen.simps)
qed

lemma jsNumber_exact: "decimalValue a < 2 ^ 53 \<Longrightarrow> jsNumber a = enat (decimalValue a)"
  by (simp add: jsNumber_def toDouble_small)

lemma jsNumber_rounds: "jsNumber ''9007199254740993'' = jsNumber ''9007199254740992''"
  by (simp add: jsNumber_def decimalValue_def digitVal_def toDouble_def Let_def)

subsection \<open>The example runs\<close>

lemma char_of_digits: "char_of (48::nat) = CHR ''0''" "char_of (49::nat) = CHR ''1''"
  by code_simp+

lemmas eval_defs = run_def main_def stageAndRender_def serveAndRender_def tryBody_def catchBlock_def
  writePdf_def finish_def findSlides_def Let_def bind_def thenDo_def emit_def call_def guard_def skip_def
  exitWith_def tryCatch_def tryPaths_def fetchStatus_def serverFetch_def path_join_def
  exampleWorld_def listNumericSlideFolders_def listIndexSlideFolders_def allDigits_def isDigit_def
  jsNumber_def decimalValue_def digitVal_def toDouble_small findSystemChrome_def linuxCandidates_def
  imgPath_def padStart4_def readManifestIfExists_def slideSize_def archivePath_def outPdfPath_def
  pageOf_def pxToPdfPoints_def numeral_3_eq_3 char_of_digits

lemma run_deckWorld:
  "run deckWorld =
     \<lparr>trace =
       [LogPlatform, Stat ''/work/deck.webslider'', Mkdtemp,
        Mkdirp ''/tmp/webslider-a/project'',
        LogExtracting ''/tmp/webslider-a/project'',
        Extract ''/work/deck.webslider'' ''/tmp/webslider-a/project'',
        LogSlideSize False (Some (JNum 1280)) (Some (JNum 720)), LogFound 2,
        Serve, LogServing, LogBrowser ''/usr/bin/chromium'',
        Launch ''/usr/bin/chromium'', NewPage,
        SetViewport (Some (JNum 1280)) (Some (JNum 720)),
        Fetch ''/slides/2/index.html'', LogRendering 1 2 ''2'',
        Goto ''/slides/2/index.html'', Sleep,
        Screenshot ''/tmp/webslider-a/slide-0000.jpg'',
        Fetch ''/slides/10/index.html'', LogRendering 2 2 ''10'',
        Goto ''/slides/10/index.html'', Sleep,
        Screenshot ''/tmp/webslider-a/slide-0001.jpg'', LogComposing,
        Mkdirp ''/work/out'',
        WriteFile ''/work/out/deck.pdf''
         [\<lparr>page_width = Some 960, page_height = Some 540,
             page_image = ''/tmp/webslider-a/slide-0000.jpg'', draw_x = 0,
             draw_y = 0, draw_width = Some 960, draw_height = Some 540\<rparr>,
          \<lparr>page_width = Some 960, page_height = Some 540,
             page_image = ''/tmp/webslider-a/slide-0001.jpg'', draw_x = 0,
             draw_y = 0, draw_width = Some 960, draw_height = Some 540\<rparr>],
        LogWritten ''/work/out/deck.pdf'' 2, CloseBrowser, StopServer,
        RemoveTmp ''/tmp/webslider-a'', LogDone],
       exit_code = 0\<rparr>"
  by (simp add: deckWorld_def eval_defs)

lemma run_timeoutWorld:
  "run timeoutWorld =
     \<lparr>trace =
       [LogPlatform, Stat ''/work/deck.webslider'', Mkdtemp,
        Mkdirp ''/tmp/webslider-a/project'',
        LogExtracting ''/tmp/webslider-a/project'',
        Extract ''/work/deck.webslider'' ''/tmp/webslider-a/project'',
        LogSlideSize False (Some (JNum 1280)) (Some (JNum 720)), LogFound 2,
        Serve, LogServing, LogBrowser ''/usr/bin/chromium'',
        Launch ''/usr/bin/chromium'', NewPage,
        SetViewport (Some (JNum 1280)) (Some (JNum 720)),
        Fetch ''/slides/2/index.html'', LogRendering 1 2 ''2'',
        Goto ''/slides/2/index.html'', Error RenderingError, CloseBrowser,
        StopServer],
       exit_code = 1\<rparr>"
  by (simp add: timeoutWorld_def deckWorld_def eval_defs)


lemma run_namedWorld:
  "run namedWorld =
     \<lparr>trace =
       [LogPlatform, Stat ''/work/deck.webslider'', Mkdtemp,
        Mkdirp ''/tmp/webslider-a/project'',
        LogExtracting ''/tmp/webslider-a/project'',
        Extract ''/work/deck.webslider'' ''/tmp/webslider-a/project'',
        LogSlideSize False (Some (JNum 1280)) (Some (JNum 720)), WarnNoNumeric,
        LogFound 2, Serve, LogServing, LogBrowser ''/usr/bin/chromium'',
        Launch ''/usr/bin/chromium'', NewPage,
        SetViewport (Some (JNum 1280)) (Some (JNum 720)),
        Fetch ''/slides/intro/index.html'', LogRendering 1 2 ''intro'',
        Goto ''/slides/intro/index.html'', Sleep,
        Screenshot ''/tmp/webslider-a/slide-0000.jpg'',
        Fetch ''/slides/outro/index.html'', LogRendering 2 2 ''outro'',
        Goto ''/slides/outro/index.html'', Sleep,
        Screenshot ''/tmp/webslider-a/slide-0001.jpg'', LogComposing,
        Mkdirp ''/work/out'',
        WriteFile ''/work/out/deck.pdf''
         [\<lparr>page_width = Some 960, page_height = Some 540,
             page_image = ''/tmp/webslider-a/slide-0000.jpg'', draw_x = 0,
             draw_y = 0, draw_width = Some 960, draw_height = Some 540\<rparr>,
          \<lparr>page_width = Some 960, page_height = Some 540,
             page_image = ''/tmp/webslider-a/slide-0001.jpg'', draw_x = 0,
             draw_y = 0, draw_width = Some 960, draw_height = Some 540\<rparr>],
        LogWritten ''/work/out/deck.pdf'' 2, CloseBrowser, StopServer,
        RemoveTmp ''/tmp/webslider-a'', LogDone],
       exit_code = 0\<rparr>"
  by (simp add: namedWorld_def eval_defs)


lemma run_fragmentWorld:
  "run fragmentWorld =
     \<lparr>trace =
       [LogPlatform, Stat ''/work/deck.webslider'', Mkdtemp,
        Mkdirp ''/tmp/webslider-a/project'',
        LogExtracting ''/tmp/webslider-a/project'',
        Extract ''/work/deck.webslider'' ''/tmp/webslider-a/project'',
        LogSlideSize False (Some (JNum 1280)) (Some (JNum 720)), WarnNoNumeric,
        LogFound 1, Serve, LogServing, LogBrowser ''/usr/bin/chromium'',
        Launch ''/usr/bin/chromium'', NewPage,
        SetViewport (Some (JNum 1280)) (Some (JNum 720)),
        Fetch ''/slides/q#1/index.html'', Fetch ''/slides/q#1'',
        Fetch ''/q#1/index.html'', Fetch ''/q#1'', Fetch ''/slides/q#1.html'',
        WarnSkip ''q#1'', Error NoRenderableSlides, CloseBrowser, StopServer],
       exit_code = 1\<rparr>"
  by (simp add: fragmentWorld_def eval_defs)

lemma slideDirs_deckWorld: "slideDirsOf deckWorld ''/tmp/webslider-a/project'' = [''2'', ''10'']"
  by (simp add: slideDirsOf_def deckWorld_def eval_defs)

lemma slideDirs_namedWorld: "slideDirsOf namedWorld ''/tmp/webslider-a/project'' = [''intro'', ''outro'']"
  by (simp add: slideDirsOf_def namedWorld_def eval_defs)

lemma resolve_deckWorld:
  "resolveUrl deckWorld ''/tmp/webslider-a/project'' ''2'' = Some ''/slides/2/index.html''"
  "resolveUrl deckWorld ''/tmp/webslider-a/project'' ''10'' = Some ''/slides/10/index.html''"
  by (simp_all add: resolveUrl_def deckWorld_def eval_defs)



lemma sort_key_Nil_iff: "sort_key f xs = [] \<longleftrightarrow> xs = []"
proof
  assume "sort_key f xs = []"
  then have "length (sort_key f xs) = 0" by simp
  then show "xs = []" by simp
qed simp

lemma captured_paths:
  "map img_path (captured w tmp sz k sl) =
     map (imgPath tmp) (filter (\<lambda>i. resolveUrl w (path_join tmp ''project'') (sl ! (i - k)) \<noteq> None) [k..<k + length sl])"
proof (induction sl arbitrary: k)
  case Nil
  show ?case by simp
next
  case (Cons s rest)
  have nth: "(s # rest) ! (i - k) = rest ! (i - Suc k)" if "Suc k \<le> i" for i
  proof -
    from that have "i - k = Suc (i - Suc k)" by arith
    then show ?thesis by simp
  qed
  have "filter (\<lambda>i. resolveUrl w (path_join tmp ''project'') ((s # rest) ! (i - k)) \<noteq> None) [Suc k..<Suc k + length rest] =
        filter (\<lambda>i. resolveUrl w (path_join tmp ''project'') (rest ! (i - Suc k)) \<noteq> None) [Suc k..<Suc k + length rest]"
  proof (rule filter_cong [OF refl])
    fix i
    assume "i \<in> set [Suc k..<Suc k + length rest]"
    then have "Suc k \<le> i" by (simp only: set_upt atLeastLessThan_iff)
    then show "(resolveUrl w (path_join tmp ''project'') ((s # rest) ! (i - k)) \<noteq> None) =
               (resolveUrl w (path_join tmp ''project'') (rest ! (i - Suc k)) \<noteq> None)"
      by (simp only: nth)
  qed
  then show ?case
    by (simp add: upt_conv_Cons Cons.IH imageOf_def del: upt_Suc)
qed

lemma captured_all:
  "list_all (\<lambda>s. resolveUrl w (path_join tmp ''project'') s \<noteq> None) sl \<Longrightarrow>
   captured w tmp sz k sl = map (imageOf tmp sz) [k..<k + length sl]"
proof (induction sl arbitrary: k)
  case Nil
  show ?case by simp
next
  case (Cons s rest)
  then show ?case by (simp add: upt_conv_Cons del: upt_Suc)
qed

lemma probe_no_visit: "filter isVisit (fst (probe w x ps)) = []"
  by (induction ps) (auto split: prod.splits)

lemma render_visits:
  "renderOk w tmp k sl \<Longrightarrow> filter isVisit (fst (renderSlides w tmp sz n k sl imgs)) = visits w tmp k sl"
proof (induction sl arbitrary: k imgs)
  case Nil
  show ?case by simp
next
  case (Cons s rest)
  obtain fs r where p: "probe w (path_join tmp ''project'') (tryPaths s) = (fs, r)"
    by (cases "probe w (path_join tmp ''project'') (tryPaths s)")
  have fs: "filter isVisit fs = []"
    using probe_no_visit [of w "path_join tmp ''project''" "tryPaths s"] by (simp add: p)
  from Cons.prems show ?case
    by (cases r) (simp_all add: p fs resolveUrl_def comp_simps snd_renderSlides Cons.IH)
qed

lemma renderTrace_visits:
  "renderOk w tmp k sl \<Longrightarrow> filter isVisit (renderTrace w tmp sz n k sl imgs) = visits w tmp k sl"
  by (simp add: renderTrace_def render_visits)

lemma slideDirsOf_eq:
  "readdir w (path_join x ''slides'') = Some entries \<Longrightarrow>
   slideDirsOf w x =
     (if filter allDigits (map d_name (filter d_isDirectory entries)) \<noteq> []
      then sort_key jsNumber (filter allDigits (map d_name (filter d_isDirectory entries)))
      else sort (filter (\<lambda>n. existsSync w (path_join (path_join (path_join x ''slides'') n) ''index.html''))
                  (map d_name (filter d_isDirectory entries))))"
  by (auto simp: slideDirsOf_def findSlides_nf listNumericSlideFolders_def listIndexSlideFolders_def
        sort_key_Nil_iff)

lemma exit_run_le: "4 \<le> length (argv w) \<Longrightarrow> exit_code (run w) \<le> 1"
  using run_cases_full [of w]
  by (elim disjE exE conjE) simp_all

subsection \<open>Independence of the arguments after the second\<close>

lemma serverFetch_argv [simp]: "serverFetch (w\<lparr>argv := a\<rparr>) = serverFetch w"
  by (simp add: fun_eq_iff serverFetch_def Let_def)

lemma fetchStatus_argv [simp]: "fetchStatus (w\<lparr>argv := a\<rparr>) x p = fetchStatus w x p"
  by (simp add: fetchStatus_def)

lemma listNumericSlideFolders_argv [simp]:
  "listNumericSlideFolders (w\<lparr>argv := a\<rparr>) d = listNumericSlideFolders w d"
  by (simp add: listNumericSlideFolders_def)

lemma listIndexSlideFolders_argv [simp]:
  "listIndexSlideFolders (w\<lparr>argv := a\<rparr>) d = listIndexSlideFolders w d"
  by (simp add: listIndexSlideFolders_def cong: option.case_cong)

lemma probe_argv [simp]: "probe (w\<lparr>argv := a\<rparr>) x ps = probe w x ps"
  by (induction ps) simp_all

lemma renderSlides_argv [simp]:
  "renderSlides (w\<lparr>argv := a\<rparr>) tmp sz n i sl imgs = renderSlides w tmp sz n i sl imgs"
  by (induction sl arbitrary: i imgs) simp_all

lemma composePages_argv [simp]: "composePages (w\<lparr>argv := a\<rparr>) imgs doc = composePages w imgs doc"
  by (induction imgs arbitrary: doc) simp_all

lemma main_argv:
  assumes "a ! 2 = argv w ! 2" and "a ! 3 = argv w ! 3"
  shows "main (w\<lparr>argv := a\<rparr>) = main w"
proof -
  have p: "archivePath (w\<lparr>argv := a\<rparr>) = archivePath w" "outPdfPath (w\<lparr>argv := a\<rparr>) = outPdfPath w"
    using assms by (simp_all add: archivePath_def outPdfPath_def)
  have f: "findSlides (w\<lparr>argv := a\<rparr>) x = findSlides w x" for x
    by (simp add: findSlides_def Let_def cong: if_cong)
  have c: "catchBlock (w\<lparr>argv := a\<rparr>) = catchBlock w"
    by (simp add: catchBlock_def fun_eq_iff)
  have wp: "writePdf (w\<lparr>argv := a\<rparr>) imgs = writePdf w imgs" for imgs
    by (simp add: writePdf_def p Let_def cong: if_cong)
  have fi: "finish (w\<lparr>argv := a\<rparr>) tmp = finish w tmp" for tmp
    by (simp add: finish_def)
  have t: "tryBody (w\<lparr>argv := a\<rparr>) tmp sz sd = tryBody w tmp sz sd" for tmp sz sd
    by (simp add: tryBody_def wp fi cong: if_cong)
  have s: "serveAndRender (w\<lparr>argv := a\<rparr>) tmp sz sd = serveAndRender w tmp sz sd" for tmp sz sd
    by (simp add: serveAndRender_def findSystemChrome_def c t cong: if_cong option.case_cong)
  have g: "stageAndRender (w\<lparr>argv := a\<rparr>) tmp = stageAndRender w tmp" for tmp
    by (simp add: stageAndRender_def readManifestIfExists_def p f s Let_def
          cong: if_cong option.case_cong)
  show ?thesis by (simp add: main_def p g cong: if_cong option.case_cong)
qed

lemma run_mixedWorld:
  "run mixedWorld =
     \<lparr>trace =
        [LogPlatform, Stat ''/work/deck.webslider'', Mkdtemp,
         Mkdirp ''/tmp/webslider-a/project'',
         LogExtracting ''/tmp/webslider-a/project'',
         Extract ''/work/deck.webslider'' ''/tmp/webslider-a/project'',
         LogSlideSize False (Some (JNum 1280)) (Some (JNum 720)), WarnNoNumeric,
         LogFound 2, Serve, LogServing, LogBrowser ''/usr/bin/chromium'',
         Launch ''/usr/bin/chromium'', NewPage,
         SetViewport (Some (JNum 1280)) (Some (JNum 720)),
         Fetch ''/slides/intro/index.html'', LogRendering 1 2 ''intro'',
         Goto ''/slides/intro/index.html'', Sleep,
         Screenshot ''/tmp/webslider-a/slide-0000.jpg'',
         Fetch ''/slides/q#1/index.html'', Fetch ''/slides/q#1'',
         Fetch ''/q#1/index.html'', Fetch ''/q#1'', Fetch ''/slides/q#1.html'',
         WarnSkip ''q#1'', LogComposing, Mkdirp ''/work/out'',
         WriteFile ''/work/out/deck.pdf''
          [\<lparr>page_width = Some 960, page_height = Some 540,
              page_image = ''/tmp/webslider-a/slide-0000.jpg'', draw_x = 0,
              draw_y = 0, draw_width = Some 960, draw_height = Some 540\<rparr>],
         LogWritten ''/work/out/deck.pdf'' 1, CloseBrowser, StopServer,
         RemoveTmp ''/tmp/webslider-a'', LogDone],
        exit_code = 0\<rparr>"
  by (simp add: mixedWorld_def eval_defs)

lemma folders_mixedWorld:
  "listNumericSlideFolders mixedWorld ''/tmp/webslider-a/project/slides'' = []"
  "listIndexSlideFolders mixedWorld ''/tmp/webslider-a/project/slides'' = Some [''intro'', ''q#1'']"
  by (simp_all add: mixedWorld_def eval_defs)


lemma world_timeoutWorld:
  "slideDirsOf timeoutWorld ''/tmp/webslider-a/project'' = [''2'', ''10'']"
  "resolveUrl timeoutWorld ''/tmp/webslider-a/project'' ''2'' = Some ''/slides/2/index.html''"
  by (simp_all add: slideDirsOf_def resolveUrl_def timeoutWorld_def deckWorld_def eval_defs)

lemma mkdtemp_example [simp]: "mkdtemp (exampleWorld dirs files entries) = Some ''/tmp/webslider-a''"
  by (simp add: exampleWorld_def)

subsection \<open>The slide size\<close>

lemma isNumber_truthy: "isNumber v \<Longrightarrow> truthy v \<longleftrightarrow> v \<noteq> Some (JNum 0)"
  by (induction v rule: isNumber.induct) simp_all

subsection \<open>Sizes of the captured images\<close>

lemma captured_sizes:
  "map (\<lambda>img. (img_width img, img_height img)) (captured w tmp sz k sl) =
     replicate (length (captured w tmp sz k sl)) sz"
  by (induction sl arbitrary: k) (simp_all add: imageOf_def)

subsection \<open>The probing loop\<close>




lemma serverFetch_status:
  "serverFetch w x p = (if existsSync w (path_join x p) then 200 else 404)"
  by (simp add: serverFetch_def Let_def)


section \<open>The claims\<close>

text \<open>
  Claim C1, as amended.  A run that ends with code 0 has written one document; its pages
  are, in order, the screenshots of the slides whose URL resolved, taken in the order of
  the slide list (each slide is visited and then captured into the file of its index), so
  there are as many pages as slides when every slide resolves.  The slide list is the
  all-digits directories in a stable sort by the numeric value \<open>jsNumber\<close> of their
  names, and only when there is none it is the directories holding an
  \<^verbatim>\<open>index.html\<close>, sorted as strings.  \<open>jsNumber\<close> is the value
  \<^verbatim>\<open>Number\<close> gives, the decimal value of the name as long as it is below \<open>2^53\<close>
  (\<open>jsNumber_exact\<close>).
\<close>

theorem pages_follow_slide_order:
  fixes w tmp entries
  defines "slidesRoot \<equiv> path_join (path_join tmp ''project'') ''slides''"
  defines "numeric \<equiv> filter allDigits (map d_name (filter d_isDirectory entries))"
  defines "indexed \<equiv> filter (\<lambda>n. existsSync w (path_join (path_join slidesRoot n) ''index.html''))
                        (map d_name (filter d_isDirectory entries))"
  defines "sd \<equiv> slideDirsOf w (path_join tmp ''project'')"
  assumes "exit_code (run w) = 0"
    and "mkdtemp w = Some tmp"
    and "readdir w slidesRoot = Some entries"
  shows "(\<exists>pages.
            WriteFile (outPdfPath w) pages \<in> set (trace (run w)) \<and>
            map page_image pages =
              map (imgPath tmp)
                (filter (\<lambda>i. resolveUrl w (path_join tmp ''project'') (sd ! i) \<noteq> None) [0..<length sd]) \<and>
            (list_all (\<lambda>s. resolveUrl w (path_join tmp ''project'') s \<noteq> None) sd \<longrightarrow>
               length pages = length sd)) \<and>
         filter isVisit (trace (run w)) = visits w tmp 0 sd \<and>
         (numeric \<noteq> [] \<longrightarrow>
            sd = sort_key jsNumber numeric \<and> length sd = length numeric \<and> sorted (map jsNumber sd)) \<and>
         (numeric = [] \<longrightarrow> sd = sort indexed \<and> length sd = length indexed \<and> sorted sd)"
proof -
  have sd: "sd = (if numeric \<noteq> [] then sort_key jsNumber numeric else sort indexed)"
    unfolding sd_def numeric_def indexed_def slidesRoot_def
    using assms(7) unfolding slidesRoot_def by (rule slideDirsOf_eq)
  have order: "(numeric \<noteq> [] \<longrightarrow>
              sd = sort_key jsNumber numeric \<and> length sd = length numeric \<and> sorted (map jsNumber sd)) \<and>
           (numeric = [] \<longrightarrow> sd = sort indexed \<and> length sd = length indexed \<and> sorted sd)"
    by (simp add: sd)
  have pg: "page_image \<circ> pageOf = img_path"
    by (simp add: fun_eq_iff pageOf_def Let_def)
  let ?pages = "map pageOf (captured w tmp (canvasOf w tmp) 0 sd)"
  have w: "WriteFile (outPdfPath w) ?pages \<in> set (trace (run w))"
    using run_cases_full [of w] assms(5,6) unfolding sd_def
    by (elim disjE exE conjE) (simp_all add: trace_defs)
  have v: "filter isVisit (trace (run w)) = visits w tmp 0 sd"
    using run_cases_full [of w] assms(5,6) unfolding sd_def
    by (elim disjE exE conjE) (simp_all add: trace_defs renderTrace_visits)
  have paths: "map page_image ?pages =
      map (imgPath tmp)
        (filter (\<lambda>i. resolveUrl w (path_join tmp ''project'') (sd ! i) \<noteq> None) [0..<length sd])"
    using captured_paths [of w tmp "canvasOf w tmp" 0 sd] by (simp add: pg)
  have len: "list_all (\<lambda>s. resolveUrl w (path_join tmp ''project'') s \<noteq> None) sd \<longrightarrow>
      length ?pages = length sd"
    by (simp add: captured_all)
  from w paths len have "\<exists>pages.
            WriteFile (outPdfPath w) pages \<in> set (trace (run w)) \<and>
            map page_image pages =
              map (imgPath tmp)
                (filter (\<lambda>i. resolveUrl w (path_join tmp ''project'') (sd ! i) \<noteq> None) [0..<length sd]) \<and>
            (list_all (\<lambda>s. resolveUrl w (path_join tmp ''project'') s \<noteq> None) sd \<longrightarrow>
               length pages = length sd)"
    by blast
  with v order show ?thesis by blast
qed

text \<open>The numbered example deck: the folders are listed as \<open>10\<close>, \<open>2\<close>; the two
  pages are the screenshots of \<open>2\<close> and of \<open>10\<close>, in this order.\<close>

theorem pages_follow_slide_order_witness:
  "exit_code (run deckWorld) = 0 \<and>
   slideDirsOf deckWorld ''/tmp/webslider-a/project'' = [''2'', ''10''] \<and>
   (\<exists>pages. WriteFile (outPdfPath deckWorld) pages \<in> set (trace (run deckWorld)) \<and>
      map page_image pages = [imgPath ''/tmp/webslider-a'' 0, imgPath ''/tmp/webslider-a'' (Suc 0)] \<and>
      length pages = Suc (Suc 0)) \<and>
   filter isVisit (trace (run deckWorld)) =
     [Goto ''/slides/2/index.html'', Screenshot (imgPath ''/tmp/webslider-a'' 0),
      Goto ''/slides/10/index.html'', Screenshot (imgPath ''/tmp/webslider-a'' (Suc 0))]"
proof -
  have x: "exit_code (run deckWorld) = 0" by (simp add: run_deckWorld)
  have m: "mkdtemp deckWorld = Some ''/tmp/webslider-a''" by (simp add: deckWorld_def)
  have r: "readdir deckWorld (path_join (path_join ''/tmp/webslider-a'' ''project'') ''slides'') =
      Some [\<lparr>d_name = ''10'', d_isDirectory = True\<rparr>, \<lparr>d_name = ''2'', d_isDirectory = True\<rparr>]"
    by (simp add: deckWorld_def exampleWorld_def path_join_def)
  have sd: "slideDirsOf deckWorld (path_join ''/tmp/webslider-a'' ''project'') = [''2'', ''10'']"
    using slideDirs_deckWorld by (simp add: path_join_def)
  have rs: "resolveUrl deckWorld (path_join ''/tmp/webslider-a'' ''project'') ''2'' = Some ''/slides/2/index.html''"
    "resolveUrl deckWorld (path_join ''/tmp/webslider-a'' ''project'') ''10'' = Some ''/slides/10/index.html''"
    using resolve_deckWorld by (simp_all add: path_join_def)
  have up: "[0..<Suc (Suc 0)] = [0, Suc 0]" by (simp add: upt_conv_Cons)
  note t = pages_follow_slide_order [OF x m r]
  have p: "\<exists>pages. WriteFile (outPdfPath deckWorld) pages \<in> set (trace (run deckWorld)) \<and>
      map page_image pages = [imgPath ''/tmp/webslider-a'' 0, imgPath ''/tmp/webslider-a'' (Suc 0)] \<and>
      length pages = Suc (Suc 0)"
    using t [THEN conjunct1] by (simp add: sd rs up)
  have v: "filter isVisit (trace (run deckWorld)) =
     [Goto ''/slides/2/index.html'', Screenshot (imgPath ''/tmp/webslider-a'' 0),
      Goto ''/slides/10/index.html'', Screenshot (imgPath ''/tmp/webslider-a'' (Suc 0))]"
    using t [THEN conjunct2, THEN conjunct1] by (simp add: sd rs)
  from x slideDirs_deckWorld p v show ?thesis by (intro conjI)
qed

text \<open>
  Against C1 as it was stated: a deck with no numbered folder and two folders that hold an
  \<^verbatim>\<open>index.html\<close>, \<open>intro\<close> and \<open>q#1\<close>.  The run succeeds and writes a
  document of one page: the URL built from \<open>q#1\<close> is cut at its fragment, no candidate
  answers, and the slide is passed over.
\<close>

theorem pages_follow_slide_order_counterexample:
  "readdir mixedWorld ''/tmp/webslider-a/project/slides'' =
     Some [\<lparr>d_name = ''q#1'', d_isDirectory = True\<rparr>, \<lparr>d_name = ''intro'', d_isDirectory = True\<rparr>] \<and>
   listNumericSlideFolders mixedWorld ''/tmp/webslider-a/project/slides'' = [] \<and>
   listIndexSlideFolders mixedWorld ''/tmp/webslider-a/project/slides'' = Some [''intro'', ''q#1''] \<and>
   exit_code (run mixedWorld) = 0 \<and>
   WriteFile ''/work/out/deck.pdf''
     [\<lparr>page_width = Some 960, page_height = Some 540,
        page_image = ''/tmp/webslider-a/slide-0000.jpg'', draw_x = 0,
        draw_y = 0, draw_width = Some 960, draw_height = Some 540\<rparr>] \<in> set (trace (run mixedWorld))"
proof -
  have "readdir mixedWorld ''/tmp/webslider-a/project/slides'' =
     Some [\<lparr>d_name = ''q#1'', d_isDirectory = True\<rparr>, \<lparr>d_name = ''intro'', d_isDirectory = True\<rparr>]"
    by (simp add: mixedWorld_def exampleWorld_def)
  then show ?thesis
    by (simp add: folders_mixedWorld run_mixedWorld)
qed

text \<open>
  Claim C2, as amended.  Once the \<^verbatim>\<open>try\<close> block is entered, a slide whose URL
  resolved and whose \<^verbatim>\<open>page.goto\<close> throws (the timeout of 30 seconds included)
  ends the whole run: the \<^verbatim>\<open>catch\<close> block prints the rendering error, the exit code
  is 1, no document is written and no later slide is rendered.
\<close>

theorem navigation_failure_is_fatal:
  assumes "NewPage \<in> set (trace (run w))"
    and "mkdtemp w = Some tmp"
    and "i < length (slideDirsOf w (path_join tmp ''project''))"
    and "resolveUrl w (path_join tmp ''project'') (slideDirsOf w (path_join tmp ''project'') ! i) \<noteq> None"
    and "\<not> goto_ok w i"
  shows "exit_code (run w) = 1 \<and>
         Error RenderingError \<in> set (trace (run w)) \<and>
         \<not> list_ex isWriteFile (trace (run w)) \<and>
         (i < j \<longrightarrow> LogRendering (Suc j) n s \<notin> set (trace (run w)))"
proof -
  have no: "\<not> renderOk w tmp 0 (slideDirsOf w (path_join tmp ''project''))"
    using renderOk_goto [of w tmp 0 "slideDirsOf w (path_join tmp ''project'')" i] assms(3-5) by auto
  have later: "i < j \<Longrightarrow> LogRendering (Suc j) n s \<notin>
      set (renderTrace w tmp sz n' 0 (slideDirsOf w (path_join tmp ''project'')) imgs)" for sz n' imgs
    by (rule renderTrace_progress [OF assms(3) _ assms(4) assms(5)])
  show ?thesis
    using run_cases_full [of w] assms(1,2) no
    by (elim disjE exE conjE) (auto simp add: trace_defs later split: if_splits)
qed

text \<open>The numbered example deck where the navigation to the first slide times out.\<close>

theorem navigation_failure_is_fatal_witness:
  "NewPage \<in> set (trace (run timeoutWorld)) \<and> \<not> goto_ok timeoutWorld 0 \<and>
   exit_code (run timeoutWorld) = 1 \<and> Error RenderingError \<in> set (trace (run timeoutWorld)) \<and>
   LogRendering 2 2 ''10'' \<notin> set (trace (run timeoutWorld))"
proof -
  have n: "NewPage \<in> set (trace (run timeoutWorld))" by (simp add: run_timeoutWorld)
  have m: "mkdtemp timeoutWorld = Some ''/tmp/webslider-a''"
    by (simp add: timeoutWorld_def deckWorld_def)
  have sd: "slideDirsOf timeoutWorld (path_join ''/tmp/webslider-a'' ''project'') = [''2'', ''10'']"
    using world_timeoutWorld(1) by (simp add: path_join_def)
  have i: "0 < length (slideDirsOf timeoutWorld (path_join ''/tmp/webslider-a'' ''project''))"
    by (simp add: sd)
  have r: "resolveUrl timeoutWorld (path_join ''/tmp/webslider-a'' ''project'')
      (slideDirsOf timeoutWorld (path_join ''/tmp/webslider-a'' ''project'') ! 0) \<noteq> None"
    using world_timeoutWorld(2) by (simp add: sd) (simp add: path_join_def)
  have g: "\<not> goto_ok timeoutWorld 0" by (simp add: timeoutWorld_def)
  from navigation_failure_is_fatal [OF n m i r g, of 1 2 "''10''"] n g show ?thesis
    by (simp add: numeral_2_eq_2)
qed

text \<open>
  Against C2 as it was stated: in that deck both slides resolve and the first navigation
  times out.  The run exits with code 1 after the rendering error, never probes the second
  slide and writes nothing; an unresolved URL, in the deck of \<open>intro\<close> and \<open>q#1\<close>,
  is passed over with a warning and the run ends with code 0.
\<close>

theorem navigation_timeout_counterexample:
  "slideDirsOf timeoutWorld ''/tmp/webslider-a/project'' = [''2'', ''10''] \<and>
   resolveUrl timeoutWorld ''/tmp/webslider-a/project'' ''2'' = Some ''/slides/2/index.html'' \<and>
   \<not> goto_ok timeoutWorld 0 \<and>
   exit_code (run timeoutWorld) = 1 \<and>
   Error RenderingError \<in> set (trace (run timeoutWorld)) \<and>
   Fetch ''/slides/10/index.html'' \<notin> set (trace (run timeoutWorld)) \<and>
   \<not> list_ex isWriteFile (trace (run timeoutWorld)) \<and>
   exit_code (run mixedWorld) = 0 \<and> WarnSkip ''q#1'' \<in> set (trace (run mixedWorld))"
  by (simp add: world_timeoutWorld run_timeoutWorld run_mixedWorld) (simp add: timeoutWorld_def)

text \<open>
  Claim C3, as amended.  Once the \<^verbatim>\<open>try\<close> block is entered: a run that ends with
  code 0 has asked, in this order, the browser to close, the server to stop and the
  working directory to be removed, each once.  A run that ends otherwise never asks for
  the removal of the working directory; it asks the browser to close first and then the
  server to stop, and repeats both in the \<^verbatim>\<open>catch\<close> block when one of them threw
  (the server is not asked again when the repeated close throws); when the first close and
  the first stop return, these two calls are all the cleanup.
\<close>

theorem cleanup_on_exit:
  assumes "NewPage \<in> set (trace (run w))"
  shows "(exit_code (run w) = 0 \<longrightarrow>
           (\<exists>tmp. mkdtemp w = Some tmp \<and>
              filter isCleanup (trace (run w)) = [CloseBrowser, StopServer, RemoveTmp tmp])) \<and>
         (exit_code (run w) \<noteq> 0 \<longrightarrow>
            RemoveTmp d \<notin> set (trace (run w)) \<and>
            filter isCleanup (trace (run w)) \<in>
              {[CloseBrowser], [CloseBrowser, StopServer],
               [CloseBrowser, CloseBrowser], [CloseBrowser, CloseBrowser, StopServer],
               [CloseBrowser, StopServer, CloseBrowser],
               [CloseBrowser, StopServer, CloseBrowser, StopServer]}) \<and>
         (exit_code (run w) \<noteq> 0 \<and> browserClose_ok w 0 \<and> srvStop_ok w 0 \<longrightarrow>
            filter isCleanup (trace (run w)) = [CloseBrowser, StopServer])"
  using run_cases_full [of w] assms
  by (elim disjE exE conjE) (auto simp add: trace_defs split: if_splits)

text \<open>The numbered example deck, which ends with code 0.\<close>

theorem cleanup_on_exit_witness:
  "NewPage \<in> set (trace (run deckWorld)) \<and> exit_code (run deckWorld) = 0 \<and>
   filter isCleanup (trace (run deckWorld)) = [CloseBrowser, StopServer, RemoveTmp ''/tmp/webslider-a'']"
proof -
  have n: "NewPage \<in> set (trace (run deckWorld))" by (simp add: run_deckWorld)
  have x: "exit_code (run deckWorld) = 0" by (simp add: run_deckWorld)
  from cleanup_on_exit [OF n] x
  have "filter isCleanup (trace (run deckWorld)) = [CloseBrowser, StopServer, RemoveTmp ''/tmp/webslider-a'']"
    by (auto simp: deckWorld_def)
  with n x show ?thesis by blast
qed

text \<open>
  Against C3 as it was stated: a deck none of whose slides resolves (a stage error) and the
  deck whose first navigation times out (an exception in the rendering) both end with code
  1 after closing the browser and stopping the server, and the working directory is left.
\<close>

theorem cleanup_counterexample:
  "NewPage \<in> set (trace (run fragmentWorld)) \<and> exit_code (run fragmentWorld) = 1 \<and>
   Error NoRenderableSlides \<in> set (trace (run fragmentWorld)) \<and>
   filter isCleanup (trace (run fragmentWorld)) = [CloseBrowser, StopServer] \<and>
   NewPage \<in> set (trace (run timeoutWorld)) \<and> exit_code (run timeoutWorld) = 1 \<and>
   Error RenderingError \<in> set (trace (run timeoutWorld)) \<and>
   filter isCleanup (trace (run timeoutWorld)) = [CloseBrowser, StopServer]"
  by (simp add: run_fragmentWorld run_timeoutWorld)

text \<open>
  Claim C4.  A run that prints one of the errors archive not found, extraction failed, no
  slides found, no browser found, no slides rendered never calls \<^verbatim>\<open>writeFile\<close>.
  When \<^verbatim>\<open>writeFile\<close> is called, it is called on the output path, every resolvable
  slide has been visited and captured without an exception, and the document holds the page
  of every captured image, in order.
\<close>

theorem no_output_on_fatal:
  "(e \<in> {ArchiveNotFound, ExtractionFailed, NoSlidesFound, BrowserNotFound, NoRenderableSlides} \<longrightarrow>
      Error e \<in> set (trace (run w)) \<longrightarrow> \<not> list_ex isWriteFile (trace (run w))) \<and>
   (WriteFile p pages \<in> set (trace (run w)) \<longrightarrow>
      (\<exists>tmp. mkdtemp w = Some tmp \<and> p = outPdfPath w \<and>
         renderOk w tmp 0 (slideDirsOf w (path_join tmp ''project'')) \<and>
         pages = map pageOf (captured w tmp (canvasOf w tmp) 0 (slideDirsOf w (path_join tmp ''project'')))))"
  using run_cases_full [of w]
  by (elim disjE exE conjE) (auto simp add: trace_defs)

text \<open>A deck of which no slide resolves, and a deck of which one of two does.\<close>

theorem no_output_on_fatal_witness:
  "Error NoRenderableSlides \<in> set (trace (run fragmentWorld)) \<and>
   \<not> list_ex isWriteFile (trace (run fragmentWorld)) \<and>
   WriteFile ''/work/out/deck.pdf''
     [\<lparr>page_width = Some 960, page_height = Some 540,
        page_image = ''/tmp/webslider-a/slide-0000.jpg'', draw_x = 0,
        draw_y = 0, draw_width = Some 960, draw_height = Some 540\<rparr>] \<in> set (trace (run mixedWorld)) \<and>
   renderOk mixedWorld ''/tmp/webslider-a'' 0 (slideDirsOf mixedWorld (path_join ''/tmp/webslider-a'' ''project''))"
proof -
  have e: "Error NoRenderableSlides \<in> set (trace (run fragmentWorld))"
    by (simp add: run_fragmentWorld)
  have "NoRenderableSlides \<in> {ArchiveNotFound, ExtractionFailed, NoSlidesFound, BrowserNotFound,
      NoRenderableSlides}" by simp
  with no_output_on_fatal [of NoRenderableSlides fragmentWorld] e
  have n: "\<not> list_ex isWriteFile (trace (run fragmentWorld))" by blast
  have w: "WriteFile ''/work/out/deck.pdf''
     [\<lparr>page_width = Some 960, page_height = Some 540,
        page_image = ''/tmp/webslider-a/slide-0000.jpg'', draw_x = 0,
        draw_y = 0, draw_width = Some 960, draw_height = Some 540\<rparr>] \<in> set (trace (run mixedWorld))"
    by (simp add: run_mixedWorld)
  from no_output_on_fatal [of _ mixedWorld] w
  have "renderOk mixedWorld ''/tmp/webslider-a'' 0
      (slideDirsOf mixedWorld (path_join ''/tmp/webslider-a'' ''project''))"
    by (auto simp: mixedWorld_def)
  with e n w show ?thesis by blast
qed

text \<open>
  Claim C5, as amended.  The slide size is the manifest's \<open>slideSize.width\<close> and
  \<open>slideSize.height\<close> exactly when both are truthy, whatever their type; when both are
  numbers this is exactly when neither is 0.  In every other case, and whenever the
  manifest, its \<open>slideSize\<close> or one of the two fields is missing, it is 1280 by 720:
  both fields are taken or none.  The function is total: no case signals an error.
\<close>

theorem slideSize_truthy:
  fixes manifest
  defines "width \<equiv> getProp (getProp manifest ''slideSize'') ''width''"
    and "height \<equiv> getProp (getProp manifest ''slideSize'') ''height''"
  shows "(slideSize manifest = (width, height) \<longleftrightarrow> truthy width \<and> truthy height) \<and>
         (\<not> (truthy width \<and> truthy height) \<longrightarrow>
            slideSize manifest = (Some (JNum 1280), Some (JNum 720))) \<and>
         (spec_carriesNumericSize manifest \<longrightarrow>
            (slideSize manifest = (width, height) \<longleftrightarrow>
               width \<noteq> Some (JNum 0) \<and> height \<noteq> Some (JNum 0))) \<and>
         (manifest = None \<or> getProp manifest ''slideSize'' = None \<or> width = None \<or> height = None \<longrightarrow>
            slideSize manifest = (Some (JNum 1280), Some (JNum 720)))"
proof -
  have n: "(width, height) \<noteq> (Some (JNum 1280), Some (JNum 720))"
    if "\<not> (truthy width \<and> truthy height)"
    using that by auto
  have a: "slideSize manifest = (width, height) \<longleftrightarrow> truthy width \<and> truthy height"
  proof (cases "truthy width \<and> truthy height")
    case True
    then show ?thesis unfolding width_def height_def by (simp add: slideSize_def Let_def)
  next
    case False
    then have "slideSize manifest = (Some (JNum 1280), Some (JNum 720))"
      unfolding width_def height_def by (auto simp: slideSize_def Let_def)
    with n [OF False] False show ?thesis by auto
  qed
  have b: "\<not> (truthy width \<and> truthy height) \<Longrightarrow>
      slideSize manifest = (Some (JNum 1280), Some (JNum 720))"
    unfolding width_def height_def by (auto simp: slideSize_def Let_def)
  have c: "spec_carriesNumericSize manifest \<Longrightarrow>
      (truthy width \<and> truthy height) = (width \<noteq> Some (JNum 0) \<and> height \<noteq> Some (JNum 0))"
    unfolding width_def height_def spec_carriesNumericSize_def by (simp add: isNumber_truthy)
  have d: "manifest = None \<or> getProp manifest ''slideSize'' = None \<or> width = None \<or> height = None \<Longrightarrow>
      \<not> (truthy width \<and> truthy height)"
    unfolding width_def height_def by auto
  from a b c d show ?thesis by blast
qed

text \<open>A manifest of 1920 by 1080, a manifest with a width only, and no manifest.\<close>

theorem slideSize_truthy_witness:
  "spec_carriesNumericSize
     (Some (JObj [(''slideSize'', JObj [(''width'', JNum 1920), (''height'', JNum 1080)])])) \<and>
   slideSize (Some (JObj [(''slideSize'', JObj [(''width'', JNum 1920), (''height'', JNum 1080)])]))
     = (Some (JNum 1920), Some (JNum 1080)) \<and>
   slideSize (Some (JObj [(''slideSize'', JObj [(''width'', JNum 1920)])]))
     = (Some (JNum 1280), Some (JNum 720)) \<and>
   slideSize None = (Some (JNum 1280), Some (JNum 720))"
  using slideSize_truthy [of "Some (JObj [(''slideSize'', JObj [(''width'', JNum 1920), (''height'', JNum 1080)])])"]
    slideSize_truthy [of "Some (JObj [(''slideSize'', JObj [(''width'', JNum 1920)])])"]
    slideSize_truthy [of None]
  by (simp add: spec_carriesNumericSize_def)

text \<open>
  Against C5 as it was stated: a manifest whose fields are the strings \<open>"1920"\<close> and
  \<open>"1080"\<close> carries no numeric size and yet is taken, as strings; a manifest whose
  fields are the numbers 0 and 720 carries a numeric size and is not taken.
\<close>

theorem slideSize_counterexample:
  "\<not> spec_carriesNumericSize
       (Some (JObj [(''slideSize'', JObj [(''width'', JStr ''1920''), (''height'', JStr ''1080'')])])) \<and>
   slideSize (Some (JObj [(''slideSize'', JObj [(''width'', JStr ''1920''), (''height'', JStr ''1080'')])]))
     = (Some (JStr ''1920''), Some (JStr ''1080'')) \<and>
   spec_carriesNumericSize
       (Some (JObj [(''slideSize'', JObj [(''width'', JNum 0), (''height'', JNum 720)])])) \<and>
   slideSize (Some (JObj [(''slideSize'', JObj [(''width'', JNum 0), (''height'', JNum 720)])]))
     = (Some (JNum 1280), Some (JNum 720))"
  by (simp add: spec_carriesNumericSize_def slideSize_def)

text \<open>
  Claim C6.  The page of an image of \<open>a\<close> by \<open>b\<close> pixels measures \<open>a * 72 / 96\<close> by
  \<open>b * 72 / 96\<close> points, and the image is drawn at the origin with the width and the
  height of the page.  Every captured image has the slide size, and the document is the
  list of the pages of the images.  A manifest of 1920 by 1080 gives pages of 1440 by 810
  points, and no manifest gives pages of 960 by 540 points.
\<close>

theorem page_size_in_points:
  "pageOf \<lparr>img_path = p, img_width = Some (JNum a), img_height = Some (JNum b)\<rparr> =
     \<lparr>page_width = Some (a * 72 / 96), page_height = Some (b * 72 / 96), page_image = p,
      draw_x = 0, draw_y = 0, draw_width = Some (a * 72 / 96), draw_height = Some (b * 72 / 96)\<rparr> \<and>
   map (\<lambda>img. (img_width img, img_height img)) (captured w tmp sz k sl) =
     replicate (length (captured w tmp sz k sl)) sz \<and>
   snd (composePages w imgs []) = (if imagesOk w imgs then Ok (map pageOf imgs) else Thrown) \<and>
   pageOf (imageOf tmp
      (slideSize (Some (JObj [(''slideSize'', JObj [(''width'', JNum 1920), (''height'', JNum 1080)])]))) i) =
     \<lparr>page_width = Some 1440, page_height = Some 810, page_image = imgPath tmp i,
      draw_x = 0, draw_y = 0, draw_width = Some 1440, draw_height = Some 810\<rparr> \<and>
   pageOf (imageOf tmp (slideSize None) i) =
     \<lparr>page_width = Some 960, page_height = Some 540, page_image = imgPath tmp i,
      draw_x = 0, draw_y = 0, draw_width = Some 960, draw_height = Some 540\<rparr>"
  by (simp add: pageOf_def pxToPdfPoints_def captured_sizes snd_composePages imagesOk_def
        imageOf_def slideSize_def Let_def)

text \<open>The page of the first screenshot of a deck without manifest.\<close>

theorem page_size_in_points_witness:
  "pageOf \<lparr>img_path = ''/tmp/webslider-a/slide-0000.jpg'', img_width = Some (JNum 1280),
          img_height = Some (JNum 720)\<rparr> =
     \<lparr>page_width = Some 960, page_height = Some 540, page_image = ''/tmp/webslider-a/slide-0000.jpg'',
      draw_x = 0, draw_y = 0, draw_width = Some 960, draw_height = Some 540\<rparr>"
  using page_size_in_points [of "''/tmp/webslider-a/slide-0000.jpg''" 1280 720]
  by simp





text \<open>
  Claim C9.  With two arguments or more the script does not stop at the argument check,
  and it runs exactly as it does on the first two arguments alone: the archive and the
  output path are read from them and nothing reads the others.
\<close>

theorem extra_arguments_ignored:
  assumes "4 \<le> length (argv w)"
  shows "run w = run (w\<lparr>argv := take 4 (argv w)\<rparr>) \<and>
         exit_code (run w) \<noteq> 2 \<and>
         archivePath w = path_resolve w (argv w ! 2) \<and>
         outPdfPath w = path_resolve w (argv w ! 3)"
proof -
  have "main (w\<lparr>argv := take 4 (argv w)\<rparr>) = main w"
    by (rule main_argv) simp_all
  then have "run w = run (w\<lparr>argv := take 4 (argv w)\<rparr>)"
    using assms by (simp add: run_def)
  moreover have "exit_code (run w) \<noteq> 2"
    using exit_run_le [of w] assms by simp
  ultimately show ?thesis by (simp add: archivePath_def outPdfPath_def)
qed

text \<open>The numbered example deck called with a third argument.\<close>

theorem extra_arguments_ignored_witness:
  "length (argv extraArgWorld) = 5 \<and> run extraArgWorld = run deckWorld \<and>
   exit_code (run extraArgWorld) = 0"
proof -
  have l: "4 \<le> length (argv extraArgWorld)" by (simp add: extraArgWorld_def)
  have "extraArgWorld\<lparr>argv := take 4 (argv extraArgWorld)\<rparr> = deckWorld"
    by (simp add: extraArgWorld_def deckWorld_def exampleWorld_def)
  with extra_arguments_ignored [OF l] have "run extraArgWorld = run deckWorld" by simp
  then show ?thesis by (simp add: run_deckWorld) (simp add: extraArgWorld_def)
qed




end
